theory Spec2Isabelle
  imports Complex_Main "HOL-Library.Word"
begin

section \<open>Numbers\<close>

text \<open>
  The C++ \<open>float\<close> is IEEE 754 binary32. A value is a real number (one with a 24-bit
  significand and an exponent in range, when it comes out of an operation), an infinity or
  NaN. Every arithmetic operation computes the exact result and rounds it to the nearest
  binary32 number, ties to the even significand, and to an infinity when the rounded result
  is 2^128 or more in magnitude. Zero has no sign here: the one operation that could tell
  (division by zero) is only reached with the sum of squares +0.
\<close>

datatype float = Flt real | PInf | NInf | NaN

definition pow2 :: "int \<Rightarrow> real" where
  "pow2 e = (if 0 \<le> e then 2 ^ nat e else 1 / 2 ^ nat (- e))"

text \<open>
  The exponent of the unit in the last place of \<open>x\<close>: the least \<open>e\<close> from -149 (the
  subnormals and the first binade) to 104 (the last binade) with \<open>|x| < 2^(e + 24)\<close>.
\<close>

function ulp_from :: "int \<Rightarrow> real \<Rightarrow> int" where
  "ulp_from e x = (if 104 \<le> e \<or> \<bar>x\<bar> < pow2 (e + 24) then e else ulp_from (e + 1) x)"
  by pat_completeness auto
termination
  by (relation "measure (\<lambda>(e, x). nat (104 - e))") auto

declare ulp_from.simps [simp del]

definition ulp_exp :: "real \<Rightarrow> int" where
  "ulp_exp x = ulp_from (- 149) x"

text \<open>The nearest integer, the even one of the two when \<open>q\<close> lies halfway.\<close>

definition round_even :: "real \<Rightarrow> int" where
  "round_even q =
     (let f = \<lfloor>q\<rfloor>; r = q - of_int f
      in if r < 1 / 2 then f else if 1 / 2 < r then f + 1 else if even f then f else f + 1)"

definition rnd :: "real \<Rightarrow> float" where
  "rnd x =
     (let e = ulp_exp x; y = of_int (round_even (x / pow2 e)) * pow2 e
      in if pow2 128 \<le> y then PInf else if y \<le> - pow2 128 then NInf else Flt y)"

fun fadd :: "float \<Rightarrow> float \<Rightarrow> float" where
  "fadd (Flt a) (Flt b) = rnd (a + b)"
| "fadd NaN _ = NaN"
| "fadd _ NaN = NaN"
| "fadd PInf NInf = NaN"
| "fadd NInf PInf = NaN"
| "fadd PInf _ = PInf"
| "fadd _ PInf = PInf"
| "fadd NInf _ = NInf"
| "fadd _ NInf = NInf"

fun fmul :: "float \<Rightarrow> float \<Rightarrow> float" where
  "fmul (Flt a) (Flt b) = rnd (a * b)"
| "fmul NaN _ = NaN"
| "fmul _ NaN = NaN"
| "fmul PInf (Flt b) = (if b = 0 then NaN else if 0 < b then PInf else NInf)"
| "fmul NInf (Flt b) = (if b = 0 then NaN else if 0 < b then NInf else PInf)"
| "fmul (Flt a) PInf = (if a = 0 then NaN else if 0 < a then PInf else NInf)"
| "fmul (Flt a) NInf = (if a = 0 then NaN else if 0 < a then NInf else PInf)"
| "fmul PInf PInf = PInf"
| "fmul NInf NInf = PInf"
| "fmul PInf NInf = NInf"
| "fmul NInf PInf = NInf"

fun fdiv :: "float \<Rightarrow> float \<Rightarrow> float" where
  "fdiv (Flt a) (Flt b) =
     (if b = 0 then (if a = 0 then NaN else if 0 < a then PInf else NInf) else rnd (a / b))"
| "fdiv NaN _ = NaN"
| "fdiv _ NaN = NaN"
| "fdiv (Flt a) PInf = Flt 0"
| "fdiv (Flt a) NInf = Flt 0"
| "fdiv PInf (Flt b) = (if 0 \<le> b then PInf else NInf)"
| "fdiv NInf (Flt b) = (if 0 \<le> b then NInf else PInf)"
| "fdiv _ _ = NaN"

fun fgt :: "float \<Rightarrow> float \<Rightarrow> bool" where
  "fgt (Flt a) (Flt b) = (b < a)"
| "fgt NaN _ = False"
| "fgt _ NaN = False"
| "fgt PInf PInf = False"
| "fgt PInf _ = True"
| "fgt _ PInf = False"
| "fgt NInf _ = False"
| "fgt _ NInf = True"

fun fsqrt :: "float \<Rightarrow> float" where
  "fsqrt (Flt a) = (if a < 0 then NaN else rnd (sqrt a))"
| "fsqrt PInf = PInf"
| "fsqrt NInf = NaN"
| "fsqrt NaN = NaN"

text \<open>
  C's \<open>fmod(a, b)\<close> is \<open>a - n * b\<close> where \<open>n\<close> is the quotient \<open>a / b\<close> with its
  fractional part cut off (rounded towards zero), so the result has the sign of \<open>a\<close>. The
  result is exact: it needs no rounding. \<open>fmod(a, 0)\<close> and \<open>fmod\<close> of an infinity are NaN,
  and \<open>fmod(a, inf)\<close> is \<open>a\<close>.
\<close>

definition trunc :: "real \<Rightarrow> int" where
  "trunc q = (if 0 \<le> q then \<lfloor>q\<rfloor> else \<lceil>q\<rceil>)"

fun fmod :: "float \<Rightarrow> float \<Rightarrow> float" where
  "fmod (Flt a) (Flt b) = (if b = 0 then NaN else Flt (a - of_int (trunc (a / b)) * b))"
| "fmod (Flt a) PInf = Flt a"
| "fmod (Flt a) NInf = Flt a"
| "fmod _ _ = NaN"

text \<open>
  A literal such as \<open>0.1f\<close> is the decimal number rounded to binary32. The other literals
  of the source (\<open>0.0f\<close>, \<open>0.5f\<close>, \<open>1.5f\<close>, \<open>2.0f\<close>, \<open>5.0f\<close>, \<open>80.0f\<close>, \<open>100.0f\<close>,
  \<open>180.0f\<close>, \<open>360.0f\<close>) are binary32 numbers as they stand.
\<close>

definition float_literal :: "real \<Rightarrow> float" where
  "float_literal x = rnd x"

text \<open>The C++ \<open>int\<close> is a 32-bit two's complement word; comparisons on it are signed.\<close>

type_synonym int32 = "32 word"

subsection \<open>The GLM vector operations the character uses\<close>

datatype vec3 = Vec3 (vx: float) (vy: float) (vz: float)

text \<open>\<open>glm::vec3(s)\<close>: every component is \<open>s\<close>.\<close>

definition vec3_of :: "float \<Rightarrow> vec3" where
  "vec3_of s = Vec3 s s s"

definition vec3_scale :: "vec3 \<Rightarrow> float \<Rightarrow> vec3" where
  "vec3_scale v s = Vec3 (fmul (vx v) s) (fmul (vy v) s) (fmul (vz v) s)"

definition vec3_add :: "vec3 \<Rightarrow> vec3 \<Rightarrow> vec3" where
  "vec3_add u v = Vec3 (fadd (vx u) (vx v)) (fadd (vy u) (vy v)) (fadd (vz u) (vz v))"

definition glm_dot :: "vec3 \<Rightarrow> vec3 \<Rightarrow> float" where
  "glm_dot u v = fadd (fadd (fmul (vx u) (vx v)) (fmul (vy u) (vy v))) (fmul (vz u) (vz v))"

definition glm_length :: "vec3 \<Rightarrow> float" where
  "glm_length v = fsqrt (glm_dot v v)"

text \<open>
  \<open>glm::inversesqrt(x)\<close> is \<open>1 / sqrt(x)\<close> and \<open>glm::normalize(v)\<close> is
  \<open>v * inversesqrt(dot(v, v))\<close>. For the zero vector the factor is \<open>+inf\<close> and every
  component is \<open>0 * inf\<close>, which is NaN.
\<close>

definition glm_inversesqrt :: "float \<Rightarrow> float" where
  "glm_inversesqrt x = fdiv (Flt 1) (fsqrt x)"

definition glm_normalize :: "vec3 \<Rightarrow> vec3" where
  "glm_normalize v = vec3_scale v (glm_inversesqrt (glm_dot v v))"

section \<open>Weapon\<close>

text \<open>
  The members \<open>stats\<close> and \<open>isReloading\<close> of \<open>Weapon\<close> are written \<open>w_stats\<close> and
  \<open>w_isReloading\<close>: the character has members of the same names. The field \<open>range\<close>
  is written \<open>range'\<close>.
\<close>

record WeaponStats =
  maxAmmo :: int32
  currentAmmo :: int32
  damage :: float
  range' :: float
  reloadTime :: float
  fireRate :: float

record Weapon =
  w_stats :: WeaponStats
  weaponType :: string
  lastShotTime :: float
  w_isReloading :: bool

definition new_Weapon :: "string \<Rightarrow> WeaponStats \<Rightarrow> Weapon" where
  "new_Weapon type initialStats =
     \<lparr>w_stats = initialStats, weaponType = type, lastShotTime = Flt 0, w_isReloading = False\<rparr>"

definition CanShoot :: "Weapon \<Rightarrow> bool" where
  "CanShoot w = (\<not> w_isReloading w \<and> 0 <s currentAmmo (w_stats w))"

definition NeedsReload :: "Weapon \<Rightarrow> bool" where
  "NeedsReload w = (currentAmmo (w_stats w) = 0)"

definition GetCurrentTime :: "Weapon \<Rightarrow> float" where
  "GetCurrentTime w = Flt 0"

definition Weapon_Shoot :: "Weapon \<Rightarrow> Weapon" where
  "Weapon_Shoot w =
     (if CanShoot w
      then w\<lparr>w_stats := (w_stats w)\<lparr>currentAmmo := currentAmmo (w_stats w) - 1\<rparr>,
             lastShotTime := GetCurrentTime w\<rparr>
      else w)"

definition StartReload :: "Weapon \<Rightarrow> Weapon" where
  "StartReload w = (if \<not> w_isReloading w then w\<lparr>w_isReloading := True\<rparr> else w)"

section \<open>The collaborators outside the repository\<close>

text \<open>
  Modelled from the spec: the classes \<open>Animation\<close> and \<open>PhysicsComponent\<close> are declared
  and used by the source but defined by the engine. An animation clip is "loaded from a
  named asset at construction" and "exposes \<open>Play()\<close>": it is the asset's name and whether
  \<open>Play()\<close> was called on it. The physics component is known by the calls it receives
  (\<open>SetCollisionCapsule(radius, height)\<close>, \<open>SetMass(mass)\<close>,
  \<open>UpdateCollision(position)\<close>), kept in the order the character makes them.
\<close>

datatype Animation = Animation (asset: string) (playing: bool)

definition Play :: "Animation \<Rightarrow> Animation" where
  "Play a = Animation (asset a) True"

datatype physics_call =
    SetCollisionCapsule float float
  | SetMass float
  | UpdateCollision vec3

type_synonym PhysicsComponent = "physics_call list"

section \<open>MilitaryCharacter\<close>

text \<open>
  Weapons are shared objects: a \<open>std::shared_ptr<Weapon>\<close> is \<open>None\<close> when null and
  otherwise the address of a weapon in the store, which maps every address to the weapon
  living there. The inventory and the equipped weapon hold such pointers, so the same weapon
  can be reached through both.
\<close>

type_synonym addr = nat
type_synonym weapon_ptr = "addr option"
type_synonym weapon_store = "addr \<Rightarrow> Weapon"

record CharacterStats =
  health :: float
  stamina :: float
  speed :: float
  rotationSpeed :: float
  crouchSpeedMultiplier :: float
  sprintSpeedMultiplier :: float

record AnimationState =
  isRunning :: bool
  isCrouching :: bool
  isAiming :: bool
  isShooting :: bool
  isReloading :: bool

record MilitaryCharacter =
  position :: vec3
  rotation :: vec3
  velocity :: vec3
  stats :: CharacterStats
  animState :: AnimationState
  physics :: PhysicsComponent
  currentWeapon :: weapon_ptr
  inventory :: "weapon_ptr list"
  currentAnimation :: "Animation option"
  animations :: "string \<Rightarrow> Animation option"

definition MAX_WEAPONS :: nat where
  "MAX_WEAPONS = 3"

text \<open>The member initialisers of the two structs.\<close>

definition default_CharacterStats :: CharacterStats where
  "default_CharacterStats =
     \<lparr>health = Flt 100, stamina = Flt 100, speed = Flt 5, rotationSpeed = Flt 180,
      crouchSpeedMultiplier = Flt (1 / 2), sprintSpeedMultiplier = Flt (3 / 2)\<rparr>"

definition default_AnimationState :: AnimationState where
  "default_AnimationState =
     \<lparr>isRunning = False, isCrouching = False, isAiming = False, isShooting = False,
      isReloading = False\<rparr>"

definition InitializePhysics :: "MilitaryCharacter \<Rightarrow> MilitaryCharacter" where
  "InitializePhysics c = c\<lparr>physics := [SetCollisionCapsule (Flt (1 / 2)) (Flt 2), SetMass (Flt 80)]\<rparr>"

definition LoadAnimations :: "MilitaryCharacter \<Rightarrow> MilitaryCharacter" where
  "LoadAnimations c =
     c\<lparr>animations := (animations c)
        (''idle'' \<mapsto> Animation ''idle.anim'' False,
         ''walk'' \<mapsto> Animation ''walk.anim'' False,
         ''run'' \<mapsto> Animation ''run.anim'' False,
         ''crouch'' \<mapsto> Animation ''crouch.anim'' False,
         ''shoot'' \<mapsto> Animation ''shoot.anim'' False,
         ''reload'' \<mapsto> Animation ''reload.anim'' False)\<rparr>"

text \<open>
  The constructor: the members named in the initialiser list, the defaults of the others
  (empty containers, null pointers), then the two calls of its body.
\<close>

definition new_MilitaryCharacter :: "vec3 \<Rightarrow> MilitaryCharacter" where
  "new_MilitaryCharacter startPos =
     LoadAnimations (InitializePhysics
       \<lparr>position = startPos, rotation = vec3_of (Flt 0), velocity = vec3_of (Flt 0),
        stats = default_CharacterStats, animState = default_AnimationState,
        physics = [], currentWeapon = None, inventory = [],
        currentAnimation = None, animations = Map.empty\<rparr>)"

subsection \<open>Animation handling\<close>

definition DetermineAnimation :: "MilitaryCharacter \<Rightarrow> string" where
  "DetermineAnimation c =
     (if isReloading (animState c) then ''reload''
      else if isShooting (animState c) then ''shoot''
      else if isCrouching (animState c) then ''crouch''
      else if isRunning (animState c) then ''run''
      else if fgt (glm_length (velocity c)) (float_literal (1 / 10)) then ''walk''
      else ''idle'')"

definition PlayAnimation :: "string \<Rightarrow> MilitaryCharacter \<Rightarrow> MilitaryCharacter" where
  "PlayAnimation animName c =
     (case animations c animName of
        Some a \<Rightarrow> c\<lparr>currentAnimation := Some (Play a)\<rparr>
      | None \<Rightarrow> c)"

definition UpdateAnimation :: "MilitaryCharacter \<Rightarrow> MilitaryCharacter" where
  "UpdateAnimation c = PlayAnimation (DetermineAnimation c) c"

subsection \<open>Movement\<close>

definition Move :: "vec3 \<Rightarrow> float \<Rightarrow> MilitaryCharacter \<Rightarrow> MilitaryCharacter" where
  "Move direction deltaTime c =
     (let moveDirection = glm_normalize direction;
          currentSpeed =
            (if isCrouching (animState c)
             then fmul (speed (stats c)) (crouchSpeedMultiplier (stats c))
             else if isRunning (animState c)
             then fmul (speed (stats c)) (sprintSpeedMultiplier (stats c))
             else speed (stats c));
          c1 = c\<lparr>velocity := vec3_scale moveDirection currentSpeed\<rparr>;
          c2 = c1\<lparr>position := vec3_add (position c1) (vec3_scale (velocity c1) deltaTime)\<rparr>;
          c3 = UpdateAnimation c2
      in c3\<lparr>physics := physics c3 @ [UpdateCollision (position c3)]\<rparr>)"

definition Rotate :: "float \<Rightarrow> float \<Rightarrow> MilitaryCharacter \<Rightarrow> MilitaryCharacter" where
  "Rotate yawDelta deltaTime c =
     (let r = rotation c;
          y1 = fadd (vy r) (fmul (fmul yawDelta (rotationSpeed (stats c))) deltaTime)
      in c\<lparr>rotation := Vec3 (vx r) (fmod y1 (Flt 360)) (vz r)\<rparr>)"

subsection \<open>State changes\<close>

definition ToggleCrouch :: "MilitaryCharacter \<Rightarrow> MilitaryCharacter" where
  "ToggleCrouch c =
     UpdateAnimation (c\<lparr>animState := (animState c)\<lparr>isCrouching := \<not> isCrouching (animState c)\<rparr>\<rparr>)"

definition StartSprint :: "MilitaryCharacter \<Rightarrow> MilitaryCharacter" where
  "StartSprint c =
     (if \<not> isCrouching (animState c) \<and> \<not> isAiming (animState c)
      then UpdateAnimation (c\<lparr>animState := (animState c)\<lparr>isRunning := True\<rparr>\<rparr>)
      else c)"

definition StopSprint :: "MilitaryCharacter \<Rightarrow> MilitaryCharacter" where
  "StopSprint c = UpdateAnimation (c\<lparr>animState := (animState c)\<lparr>isRunning := False\<rparr>\<rparr>)"

subsection \<open>Combat\<close>

text \<open>\<open>PickupWeapon\<close> returns its boolean result and the character after the call.\<close>

definition PickupWeapon :: "weapon_ptr \<Rightarrow> MilitaryCharacter \<Rightarrow> bool \<times> MilitaryCharacter" where
  "PickupWeapon weapon c =
     (if length (inventory c) < MAX_WEAPONS
      then (let c1 = c\<lparr>inventory := inventory c @ [weapon]\<rparr>
            in (True, if currentWeapon c1 = None then c1\<lparr>currentWeapon := weapon\<rparr> else c1))
      else (False, c))"

text \<open>
  \<open>Shoot\<close> and \<open>Reload\<close> call into the equipped weapon, so they take and return the
  weapon store together with the character.
\<close>

record world =
  heap :: weapon_store
  chr :: MilitaryCharacter

definition Reload :: "world \<Rightarrow> world" where
  "Reload s =
     (case currentWeapon (chr s) of
        None \<Rightarrow> s
      | Some a \<Rightarrow>
          if \<not> isReloading (animState (chr s))
          then \<lparr>heap = (heap s)(a := StartReload (heap s a)),
                chr = PlayAnimation ''reload''
                  ((chr s)\<lparr>animState := (animState (chr s))\<lparr>isReloading := True\<rparr>\<rparr>)\<rparr>
          else s)"

definition Shoot :: "world \<Rightarrow> world" where
  "Shoot s =
     (case currentWeapon (chr s) of
        None \<Rightarrow> s
      | Some a \<Rightarrow>
          if \<not> isReloading (animState (chr s))
          then (if CanShoot (heap s a)
                then \<lparr>heap = (heap s)(a := Weapon_Shoot (heap s a)),
                      chr = PlayAnimation ''shoot''
                        ((chr s)\<lparr>animState := (animState (chr s))\<lparr>isShooting := True\<rparr>\<rparr>)\<rparr>
                else if NeedsReload (heap s a) then Reload s
                else s)
          else s)"

section \<open>Sequences of calls\<close>

text \<open>
  A caller can invoke the public methods of the character and of any weapon, in any order.
  \<open>CanShoot\<close> and \<open>NeedsReload\<close> are \<open>const\<close> and change nothing.
\<close>

datatype call =
    Call_Move vec3 float
  | Call_Rotate float float
  | Call_PickupWeapon weapon_ptr
  | Call_Shoot
  | Call_Reload
  | Call_ToggleCrouch
  | Call_StartSprint
  | Call_StopSprint
  | Call_UpdateAnimation
  | Call_Weapon_CanShoot addr
  | Call_Weapon_NeedsReload addr
  | Call_Weapon_Shoot addr
  | Call_Weapon_StartReload addr

fun step :: "call \<Rightarrow> world \<Rightarrow> world" where
  "step (Call_Move direction deltaTime) s = s\<lparr>chr := Move direction deltaTime (chr s)\<rparr>"
| "step (Call_Rotate yawDelta deltaTime) s = s\<lparr>chr := Rotate yawDelta deltaTime (chr s)\<rparr>"
| "step (Call_PickupWeapon weapon) s = s\<lparr>chr := snd (PickupWeapon weapon (chr s))\<rparr>"
| "step Call_Shoot s = Shoot s"
| "step Call_Reload s = Reload s"
| "step Call_ToggleCrouch s = s\<lparr>chr := ToggleCrouch (chr s)\<rparr>"
| "step Call_StartSprint s = s\<lparr>chr := StartSprint (chr s)\<rparr>"
| "step Call_StopSprint s = s\<lparr>chr := StopSprint (chr s)\<rparr>"
| "step Call_UpdateAnimation s = s\<lparr>chr := UpdateAnimation (chr s)\<rparr>"
| "step (Call_Weapon_CanShoot a) s = s"
| "step (Call_Weapon_NeedsReload a) s = s"
| "step (Call_Weapon_Shoot a) s = s\<lparr>heap := (heap s)(a := Weapon_Shoot (heap s a))\<rparr>"
| "step (Call_Weapon_StartReload a) s = s\<lparr>heap := (heap s)(a := StartReload (heap s a))\<rparr>"

fun run :: "call list \<Rightarrow> world \<Rightarrow> world" where
  "run [] s = s"
| "run (c # cs) s = run cs (step c s)"

text \<open>
  The states a program can see: a character is made by its constructor, in a store holding
  any weapons, and then receives calls.
\<close>

definition initial :: "weapon_store \<Rightarrow> vec3 \<Rightarrow> world" where
  "initial h startPos = \<lparr>heap = h, chr = new_MilitaryCharacter startPos\<rparr>"

text \<open>The weapon's ammunition, read as the signed number the C++ \<open>int\<close> holds.\<close>

definition ammo :: "Weapon \<Rightarrow> int" where
  "ammo w = sint (currentAmmo (w_stats w))"

text \<open>
  \<open>PickupWeapon\<close> called once for each pointer of a list, in order: the booleans the calls
  return and the character after the last one.
\<close>

fun pickups :: "weapon_ptr list \<Rightarrow> MilitaryCharacter \<Rightarrow> bool list \<times> MilitaryCharacter" where
  "pickups [] c = ([], c)"
| "pickups (w # ws) c =
     (let (ok, c1) = PickupWeapon w c; (oks, c2) = pickups ws c1 in (ok # oks, c2))"

text \<open>The equipped weapon, when there is one, is one of the pointers in the inventory.\<close>

definition equipped_in_inventory :: "MilitaryCharacter \<Rightarrow> bool" where
  "equipped_in_inventory c =
     (case currentWeapon c of None \<Rightarrow> True | Some a \<Rightarrow> Some a \<in> set (inventory c))"

text \<open>
  The specification's words for the result of \<open>Rotate\<close>, "wraps into [0, 360)": the
  number in that interval that differs from the sum by a whole number of turns.
\<close>

definition wrap360 :: "real \<Rightarrow> real" where
  "wrap360 x = x - 360 * of_int \<lfloor>x / 360\<rfloor>"

subsection \<open>Concrete objects\<close>

text \<open>
  The scenario of the specification: a character constructed at the origin and a pistol with
  \<open>maxAmmo = 1\<close> and \<open>currentAmmo = 1\<close>, here in a store where every address holds
  such a pistol.
\<close>

definition origin :: vec3 where
  "origin = vec3_of (Flt 0)"

definition pistol :: Weapon where
  "pistol = new_Weapon ''pistol''
     \<lparr>maxAmmo = 1, currentAmmo = 1, damage = Flt 10, range' = Flt 50,
      reloadTime = Flt 2, fireRate = Flt 1\<rparr>"

definition armory :: weapon_store where
  "armory = (\<lambda>a. pistol)"

definition fresh :: MilitaryCharacter where
  "fresh = new_MilitaryCharacter origin"

text \<open>
  The new character with its reloading, shooting, crouching and running flags and its
  velocity set as given.
\<close>

definition posed :: "bool \<Rightarrow> bool \<Rightarrow> bool \<Rightarrow> bool \<Rightarrow> vec3 \<Rightarrow> MilitaryCharacter" where
  "posed reloading shooting crouching running v =
     fresh\<lparr>animState := \<lparr>isRunning = running, isCrouching = crouching, isAiming = False,
                           isShooting = shooting, isReloading = reloading\<rparr>,
           velocity := v\<rparr>"

text \<open>
  The character after picking up the pistol at address 0, after then shooting once, and
  after shooting a second time.
\<close>

definition armed :: world where
  "armed = run [Call_PickupWeapon (Some 0)] (initial armory origin)"

definition fired :: world where
  "fired = run [Call_PickupWeapon (Some 0), Call_Shoot] (initial armory origin)"

definition emptied :: world where
  "emptied = run [Call_PickupWeapon (Some 0), Call_Shoot, Call_Shoot] (initial armory origin)"

section \<open>Properties of the weapon\<close>

lemma ammo_Weapon_Shoot_CanShoot:
  assumes "CanShoot w"
  shows "ammo (Weapon_Shoot w) = ammo w - 1"
proof -
  have pos: "0 < sint (currentAmmo (w_stats w))"
    using assms by (simp add: CanShoot_def word_sless_alt)
  have "sint (currentAmmo (w_stats w) - 1) = sint (currentAmmo (w_stats w)) - 1"
    using pos sint_lt [of "currentAmmo (w_stats w)"]
    by (simp add: sint_word_ariths signed_take_bit_int_eq_self)
  then show ?thesis
    using assms by (simp add: ammo_def Weapon_Shoot_def)
qed

lemma ammo_eq_0: "ammo w = 0 \<longleftrightarrow> currentAmmo (w_stats w) = 0"
  unfolding ammo_def by (metis sint_0 signed_word_eqI)

lemma CanShoot_ammo: "CanShoot w \<longleftrightarrow> \<not> w_isReloading w \<and> 0 < ammo w"
  by (simp add: CanShoot_def ammo_def word_sless_alt)

lemma Weapon_Shoot_not_CanShoot: "\<not> CanShoot w \<Longrightarrow> Weapon_Shoot w = w"
  by (simp add: Weapon_Shoot_def)

lemma currentAmmo_Weapon_Shoot_CanShoot:
  "CanShoot w \<Longrightarrow> currentAmmo (w_stats (Weapon_Shoot w)) = currentAmmo (w_stats w) - 1"
  by (simp add: Weapon_Shoot_def)

lemma ammo_Weapon_Shoot_le: "ammo (Weapon_Shoot w) \<le> ammo w"
  by (cases "CanShoot w") (simp_all add: ammo_Weapon_Shoot_CanShoot Weapon_Shoot_not_CanShoot)

lemma ammo_Weapon_Shoot_nonneg: "0 \<le> ammo w \<Longrightarrow> 0 \<le> ammo (Weapon_Shoot w)"
  by (cases "CanShoot w")
    (simp_all add: ammo_Weapon_Shoot_CanShoot Weapon_Shoot_not_CanShoot CanShoot_ammo)

lemma w_stats_StartReload: "w_stats (StartReload w) = w_stats w"
  by (simp add: StartReload_def)

lemma ammo_StartReload: "ammo (StartReload w) = ammo w"
  by (simp add: ammo_def w_stats_StartReload)

lemma w_isReloading_StartReload: "w_isReloading (StartReload w)"
  by (simp add: StartReload_def)

lemma w_isReloading_Weapon_Shoot: "w_isReloading (Weapon_Shoot w) = w_isReloading w"
  by (simp add: Weapon_Shoot_def)

lemma Weapon_Shoot_reloading: "w_isReloading w \<Longrightarrow> Weapon_Shoot w = w"
  by (simp add: Weapon_Shoot_def CanShoot_def)

lemma StartReload_reloading: "w_isReloading w \<Longrightarrow> StartReload w = w"
  by (simp add: StartReload_def)

text \<open>What a call does to the store: at most one weapon changes, by Shoot or StartReload.\<close>

lemma heap_Reload:
  "heap (Reload s) a = heap s a \<or> heap (Reload s) a = StartReload (heap s a)"
  by (simp add: Reload_def split: option.splits)

lemma heap_Shoot:
  "heap (Shoot s) a = heap s a \<or> heap (Shoot s) a = StartReload (heap s a)
     \<or> heap (Shoot s) a = Weapon_Shoot (heap s a)"
  using heap_Reload [of s a] by (auto simp: Shoot_def split: option.splits)

lemma heap_step:
  "heap (step c s) a = heap s a \<or> heap (step c s) a = StartReload (heap s a)
     \<or> heap (step c s) a = Weapon_Shoot (heap s a)"
  using heap_Shoot [of s a] heap_Reload [of s a] by (cases c) auto

lemma step_ammo_le: "ammo (heap (step c s) a) \<le> ammo (heap s a)"
  using heap_step [of c s a] by (auto simp: ammo_StartReload ammo_Weapon_Shoot_le)

lemma step_ammo_nonneg: "0 \<le> ammo (heap s a) \<Longrightarrow> 0 \<le> ammo (heap (step c s) a)"
  using heap_step [of c s a] by (auto simp: ammo_StartReload ammo_Weapon_Shoot_nonneg)

lemma step_reloading_frozen:
  "w_isReloading (heap s a) \<Longrightarrow> heap (step c s) a = heap s a"
  using heap_step [of c s a] by (auto simp: StartReload_reloading Weapon_Shoot_reloading)

lemma run_ammo_le: "ammo (heap (run cs s) a) \<le> ammo (heap s a)"
proof (induction cs arbitrary: s)
  case Nil
  show ?case by simp
next
  case (Cons c cs)
  have "ammo (heap (run cs (step c s)) a) \<le> ammo (heap (step c s) a)"
    by (rule Cons.IH)
  also have "\<dots> \<le> ammo (heap s a)"
    by (rule step_ammo_le)
  finally show ?case by simp
qed

lemma run_ammo_nonneg: "0 \<le> ammo (heap s a) \<Longrightarrow> 0 \<le> ammo (heap (run cs s) a)"
  by (induction cs arbitrary: s) (simp_all add: step_ammo_nonneg)

lemma run_reloading_frozen:
  "w_isReloading (heap s a) \<Longrightarrow> heap (run cs s) a = heap s a"
  by (induction cs arbitrary: s) (simp_all add: step_reloading_frozen)

lemma run_ammo_zero:
  assumes "currentAmmo (w_stats (heap s a)) = 0"
  shows "currentAmmo (w_stats (heap (run cs s) a)) = 0"
proof -
  have "ammo (heap s a) = 0"
    using assms by (simp add: ammo_eq_0)
  with run_ammo_le [of cs s a] run_ammo_nonneg [of s a cs]
  have "ammo (heap (run cs s) a) = 0" by simp
  then show ?thesis by (simp add: ammo_eq_0)
qed

lemma pistol_CanShoot: "CanShoot pistol"
  by (simp add: pistol_def new_Weapon_def CanShoot_def word_sless_alt)

lemma pistol_ammo: "ammo pistol = 1"
  by (simp add: pistol_def new_Weapon_def ammo_def)

section \<open>The claims about the weapon\<close>

text \<open>
  C3. \<open>CanShoot()\<close> holds exactly when the weapon is not reloading and its ammunition is
  positive. \<open>Weapon.Shoot()\<close> takes exactly one round off \<open>currentAmmo\<close> when
  \<open>CanShoot()\<close> holds at the call, and leaves the weapon (so also \<open>currentAmmo\<close>) as
  it was otherwise. Hence an ammunition count that is not negative stays so: after one
  shot, and after any sequence of calls on the character and the weapons.
\<close>

theorem Weapon_Shoot_decrements_iff_CanShoot:
  "(CanShoot w \<longleftrightarrow> \<not> w_isReloading w \<and> 0 < ammo w)
   \<and> (CanShoot w \<longrightarrow>
        currentAmmo (w_stats (Weapon_Shoot w)) = currentAmmo (w_stats w) - 1
        \<and> ammo (Weapon_Shoot w) = ammo w - 1)
   \<and> (\<not> CanShoot w \<longrightarrow> Weapon_Shoot w = w)
   \<and> (0 \<le> ammo w \<longrightarrow> 0 \<le> ammo (Weapon_Shoot w))
   \<and> (0 \<le> ammo (heap s a) \<longrightarrow> 0 \<le> ammo (heap (run cs s) a))"
proof -
  have "CanShoot w \<longleftrightarrow> \<not> w_isReloading w \<and> 0 < ammo w"
    by (rule CanShoot_ammo)
  moreover have "CanShoot w \<longrightarrow>
      currentAmmo (w_stats (Weapon_Shoot w)) = currentAmmo (w_stats w) - 1
      \<and> ammo (Weapon_Shoot w) = ammo w - 1"
    by (simp add: currentAmmo_Weapon_Shoot_CanShoot ammo_Weapon_Shoot_CanShoot)
  moreover have "\<not> CanShoot w \<longrightarrow> Weapon_Shoot w = w"
    by (simp add: Weapon_Shoot_not_CanShoot)
  moreover have "0 \<le> ammo w \<longrightarrow> 0 \<le> ammo (Weapon_Shoot w)"
    by (simp add: ammo_Weapon_Shoot_nonneg)
  moreover have "0 \<le> ammo (heap s a) \<longrightarrow> 0 \<le> ammo (heap (run cs s) a)"
    by (simp add: run_ammo_nonneg)
  ultimately show ?thesis by blast
qed

text \<open>
  The pistol of the scenario can shoot and holds one round; the shot leaves none. The fired
  pistol cannot shoot and a second shot changes nothing. Fired twice through the weapon's
  own method, in the store, its ammunition is still not negative.
\<close>

theorem Weapon_Shoot_decrements_iff_CanShoot_witness:
  "CanShoot pistol \<and> ammo pistol = 1 \<and> ammo (Weapon_Shoot pistol) = 0
   \<and> \<not> CanShoot (Weapon_Shoot pistol)
   \<and> Weapon_Shoot (Weapon_Shoot pistol) = Weapon_Shoot pistol
   \<and> 0 \<le> ammo (Weapon_Shoot (Weapon_Shoot pistol))
   \<and> 0 \<le> ammo (heap (run [Call_Weapon_Shoot 0, Call_Weapon_Shoot 0]
                      \<lparr>heap = armory, chr = fresh\<rparr>) 0)"
proof -
  let ?s = "\<lparr>heap = armory, chr = fresh\<rparr>"
  let ?cs = "[Call_Weapon_Shoot 0, Call_Weapon_Shoot 0]"
  have a: "0 \<le> ammo (heap ?s 0)"
    by (simp add: armory_def pistol_ammo)
  have b: "ammo (Weapon_Shoot pistol) = 0"
    using Weapon_Shoot_decrements_iff_CanShoot [of pistol ?s 0 ?cs] pistol_CanShoot pistol_ammo
    by simp
  have c: "\<not> CanShoot (Weapon_Shoot pistol)"
    using Weapon_Shoot_decrements_iff_CanShoot [of "Weapon_Shoot pistol" ?s 0 ?cs] b
    by simp
  show ?thesis
    using Weapon_Shoot_decrements_iff_CanShoot [of "Weapon_Shoot pistol" ?s 0 ?cs]
      a b c pistol_CanShoot pistol_ammo
    by simp
qed

text \<open>
  C7. \<open>NeedsReload()\<close> is true exactly when \<open>currentAmmo\<close> is 0, and the weapon's
  \<open>isReloading\<close> flag has no part in it: whatever the flag is set to, the answer is the same.
\<close>

theorem NeedsReload_iff_no_ammo:
  "(NeedsReload w \<longleftrightarrow> currentAmmo (w_stats w) = 0)
   \<and> (NeedsReload w \<longleftrightarrow> ammo w = 0)
   \<and> NeedsReload (w\<lparr>w_isReloading := b\<rparr>) = NeedsReload w"
  by (simp add: NeedsReload_def ammo_eq_0)

text \<open>
  C9. \<open>StartReload()\<close> sets the weapon's reloading flag. From then on no sequence of calls
  on the character or on any weapon changes that weapon at all: the flag stays set and
  \<open>currentAmmo\<close> stays what it was. No call ever raises the ammunition of any weapon,
  so a weapon at \<open>currentAmmo == 0\<close> stays at 0.
\<close>

theorem reload_never_completes:
  "w_isReloading (StartReload w)
   \<and> (w_isReloading (heap s a) \<longrightarrow>
        w_isReloading (heap (run cs s) a)
        \<and> currentAmmo (w_stats (heap (run cs s) a)) = currentAmmo (w_stats (heap s a)))
   \<and> ammo (heap (run cs s) a) \<le> ammo (heap s a)
   \<and> (currentAmmo (w_stats (heap s a)) = 0 \<longrightarrow>
        currentAmmo (w_stats (heap (run cs s) a)) = 0)"
proof -
  have "w_isReloading (heap s a) \<longrightarrow>
      w_isReloading (heap (run cs s) a)
      \<and> currentAmmo (w_stats (heap (run cs s) a)) = currentAmmo (w_stats (heap s a))"
    by (simp add: run_reloading_frozen)
  moreover have "currentAmmo (w_stats (heap s a)) = 0 \<longrightarrow>
      currentAmmo (w_stats (heap (run cs s) a)) = 0"
    by (simp add: run_ammo_zero)
  ultimately show ?thesis
    using w_isReloading_StartReload [of w] run_ammo_le [of cs s a] by blast
qed

section \<open>What the calls leave alone\<close>

lemma PlayAnimation_frame:
  "animations (PlayAnimation n c) = animations c"
  "currentWeapon (PlayAnimation n c) = currentWeapon c"
  "inventory (PlayAnimation n c) = inventory c"
  "animState (PlayAnimation n c) = animState c"
  by (simp_all add: PlayAnimation_def split: option.splits)

lemma UpdateAnimation_frame:
  "animations (UpdateAnimation c) = animations c"
  "currentWeapon (UpdateAnimation c) = currentWeapon c"
  "inventory (UpdateAnimation c) = inventory c"
  "animState (UpdateAnimation c) = animState c"
  by (simp_all add: UpdateAnimation_def PlayAnimation_frame)

lemma Move_frame:
  "animations (Move d t c) = animations c"
  "currentWeapon (Move d t c) = currentWeapon c"
  "inventory (Move d t c) = inventory c"
  by (simp_all add: Move_def Let_def UpdateAnimation_frame)

lemma Rotate_frame:
  "animations (Rotate d t c) = animations c"
  "currentWeapon (Rotate d t c) = currentWeapon c"
  "inventory (Rotate d t c) = inventory c"
  by (simp_all add: Rotate_def Let_def)

lemma ToggleCrouch_frame:
  "animations (ToggleCrouch c) = animations c"
  "currentWeapon (ToggleCrouch c) = currentWeapon c"
  "inventory (ToggleCrouch c) = inventory c"
  by (simp_all add: ToggleCrouch_def UpdateAnimation_frame)

lemma StartSprint_frame:
  "animations (StartSprint c) = animations c"
  "currentWeapon (StartSprint c) = currentWeapon c"
  "inventory (StartSprint c) = inventory c"
  by (simp_all add: StartSprint_def UpdateAnimation_frame)

lemma StopSprint_frame:
  "animations (StopSprint c) = animations c"
  "currentWeapon (StopSprint c) = currentWeapon c"
  "inventory (StopSprint c) = inventory c"
  by (simp_all add: StopSprint_def UpdateAnimation_frame)

lemma Reload_frame:
  "animations (chr (Reload s)) = animations (chr s)"
  "currentWeapon (chr (Reload s)) = currentWeapon (chr s)"
  "inventory (chr (Reload s)) = inventory (chr s)"
  by (simp_all add: Reload_def PlayAnimation_frame split: option.splits)

lemma Shoot_frame:
  "animations (chr (Shoot s)) = animations (chr s)"
  "currentWeapon (chr (Shoot s)) = currentWeapon (chr s)"
  "inventory (chr (Shoot s)) = inventory (chr s)"
  by (simp_all add: Shoot_def Reload_frame PlayAnimation_frame split: option.splits)

lemma PickupWeapon_animations:
  "animations (snd (PickupWeapon w c)) = animations c"
  by (simp add: PickupWeapon_def Let_def)

lemmas frame =
  Move_frame Rotate_frame ToggleCrouch_frame StartSprint_frame StopSprint_frame
  Reload_frame Shoot_frame UpdateAnimation_frame

lemma step_animations: "animations (chr (step c s)) = animations (chr s)"
  by (cases c) (simp_all add: frame PickupWeapon_animations)

lemma run_animations: "animations (chr (run cs s)) = animations (chr s)"
  by (induction cs arbitrary: s) (simp_all add: step_animations)

lemma new_MilitaryCharacter_reload_clip:
  "animations (new_MilitaryCharacter p) ''reload'' = Some (Animation ''reload.anim'' False)"
  by (simp add: new_MilitaryCharacter_def LoadAnimations_def InitializePhysics_def)

lemma reachable_reload_clip:
  "animations (chr (run cs (initial h p))) ''reload'' = Some (Animation ''reload.anim'' False)"
  by (simp add: run_animations initial_def new_MilitaryCharacter_reload_clip)

text \<open>Only \<open>PickupWeapon\<close> touches the inventory and the equipped weapon.\<close>

lemma step_not_pickup:
  assumes "\<And>w. c \<noteq> Call_PickupWeapon w"
  shows "currentWeapon (chr (step c s)) = currentWeapon (chr s)"
    and "inventory (chr (step c s)) = inventory (chr s)"
  using assms by (cases c; simp add: frame)+

lemma PickupWeapon_fst: "fst (PickupWeapon w c) = (length (inventory c) < MAX_WEAPONS)"
  by (simp add: PickupWeapon_def Let_def)

lemma PickupWeapon_full:
  "\<not> length (inventory c) < MAX_WEAPONS \<Longrightarrow> PickupWeapon w c = (False, c)"
  by (simp add: PickupWeapon_def)

lemma PickupWeapon_inventory:
  "length (inventory c) < MAX_WEAPONS \<Longrightarrow> inventory (snd (PickupWeapon w c)) = inventory c @ [w]"
  by (simp add: PickupWeapon_def Let_def)

lemma PickupWeapon_currentWeapon:
  "currentWeapon (snd (PickupWeapon w c)) =
     (if length (inventory c) < MAX_WEAPONS \<and> currentWeapon c = None then w else currentWeapon c)"
  by (simp add: PickupWeapon_def Let_def)

lemma PickupWeapon_length_le:
  "length (inventory c) \<le> MAX_WEAPONS \<Longrightarrow> length (inventory (snd (PickupWeapon w c))) \<le> MAX_WEAPONS"
  by (simp add: PickupWeapon_def Let_def)

lemma step_length_le:
  "length (inventory (chr s)) \<le> MAX_WEAPONS \<Longrightarrow> length (inventory (chr (step c s))) \<le> MAX_WEAPONS"
  by (cases c) (simp_all add: frame PickupWeapon_length_le)

lemma run_length_le:
  "length (inventory (chr s)) \<le> MAX_WEAPONS \<Longrightarrow> length (inventory (chr (run cs s))) \<le> MAX_WEAPONS"
  by (induction cs arbitrary: s) (simp_all add: step_length_le)

lemma new_MilitaryCharacter_empty:
  "inventory (new_MilitaryCharacter p) = []" "currentWeapon (new_MilitaryCharacter p) = None"
  by (simp_all add: new_MilitaryCharacter_def LoadAnimations_def InitializePhysics_def)

lemma PickupWeapon_equipped_in_inventory:
  assumes "equipped_in_inventory c"
  shows "equipped_in_inventory (snd (PickupWeapon w c))"
proof (cases "length (inventory c) < MAX_WEAPONS")
  case False
  then show ?thesis
    using assms by (simp add: PickupWeapon_full)
next
  case True
  show ?thesis
  proof (cases "currentWeapon c")
    case None
    then have "currentWeapon (snd (PickupWeapon w c)) = w"
      using True by (simp add: PickupWeapon_currentWeapon)
    moreover have "w \<in> set (inventory (snd (PickupWeapon w c)))"
      using True by (simp add: PickupWeapon_inventory)
    ultimately show ?thesis
      by (cases w) (simp_all add: equipped_in_inventory_def)
  next
    case (Some a)
    then have "currentWeapon (snd (PickupWeapon w c)) = Some a"
      by (simp add: PickupWeapon_currentWeapon)
    moreover have "Some a \<in> set (inventory c)"
      using assms Some by (simp add: equipped_in_inventory_def)
    then have "Some a \<in> set (inventory (snd (PickupWeapon w c)))"
      using True by (simp add: PickupWeapon_inventory)
    ultimately show ?thesis
      by (simp add: equipped_in_inventory_def)
  qed
qed

lemma equipped_in_inventory_same:
  "currentWeapon c' = currentWeapon c \<Longrightarrow> inventory c' = inventory c \<Longrightarrow>
     equipped_in_inventory c' = equipped_in_inventory c"
  by (simp add: equipped_in_inventory_def split: option.splits)

lemma step_equipped_in_inventory:
  assumes "equipped_in_inventory (chr s)"
  shows "equipped_in_inventory (chr (step c s))"
proof (cases "\<exists>w. c = Call_PickupWeapon w")
  case True
  then obtain w where "c = Call_PickupWeapon w" by blast
  then show ?thesis
    using PickupWeapon_equipped_in_inventory [OF assms, of w] by simp
next
  case False
  then have "currentWeapon (chr (step c s)) = currentWeapon (chr s)"
    and "inventory (chr (step c s)) = inventory (chr s)"
    by (simp_all add: step_not_pickup)
  then show ?thesis
    using assms equipped_in_inventory_same [of "chr (step c s)" "chr s"] by simp
qed

lemma run_equipped_in_inventory:
  "equipped_in_inventory (chr s) \<Longrightarrow> equipped_in_inventory (chr (run cs s))"
  by (induction cs arbitrary: s) (simp_all add: step_equipped_in_inventory)

lemma PickupWeapon_equipped_stays:
  "currentWeapon c = Some a \<Longrightarrow> currentWeapon (snd (PickupWeapon w c)) = Some a"
  by (simp add: PickupWeapon_currentWeapon)

lemma step_equipped_stays:
  "currentWeapon (chr s) = Some a \<Longrightarrow> currentWeapon (chr (step c s)) = Some a"
  by (cases c) (simp_all add: frame PickupWeapon_currentWeapon)

lemma run_equipped_stays:
  "currentWeapon (chr s) = Some a \<Longrightarrow> currentWeapon (chr (run cs s)) = Some a"
proof (induction cs arbitrary: s)
  case Nil
  then show ?case by simp
next
  case (Cons c cs)
  have "currentWeapon (chr (step c s)) = Some a"
    using Cons.prems by (rule step_equipped_stays)
  then have "currentWeapon (chr (run cs (step c s))) = Some a"
    by (rule Cons.IH)
  then show ?case by simp
qed

lemma pickups_Cons:
  "pickups (w # ws) c =
     (fst (PickupWeapon w c) # fst (pickups ws (snd (PickupWeapon w c))),
      snd (pickups ws (snd (PickupWeapon w c))))"
  by (simp add: split_beta)

lemma pickups_equipped_stays:
  "currentWeapon c = Some a \<Longrightarrow> currentWeapon (snd (pickups ws c)) = Some a"
proof (induction ws arbitrary: c)
  case Nil
  then show ?case by simp
next
  case (Cons w ws)
  have "currentWeapon (snd (PickupWeapon w c)) = Some a"
    using Cons.prems by (rule PickupWeapon_equipped_stays)
  then have "currentWeapon (snd (pickups ws (snd (PickupWeapon w c)))) = Some a"
    by (rule Cons.IH)
  then show ?case
    by (simp only: pickups_Cons snd_conv)
qed

section \<open>The scenario, evaluated\<close>

lemmas scenario_defs =
  initial_def new_MilitaryCharacter_def LoadAnimations_def InitializePhysics_def
  default_CharacterStats_def default_AnimationState_def origin_def vec3_of_def armory_def
  pistol_def new_Weapon_def PickupWeapon_def Shoot_def Reload_def CanShoot_def NeedsReload_def
  Weapon_Shoot_def StartReload_def PlayAnimation_def Play_def MAX_WEAPONS_def Let_def
  word_sless_alt GetCurrentTime_def fresh_def

lemma armed_facts:
  "currentWeapon (chr armed) = Some 0"
  "inventory (chr armed) = [Some 0]"
  "heap armed 0 = pistol"
  "\<not> isReloading (animState (chr armed))"
  by (simp_all add: armed_def scenario_defs)

lemma fired_facts:
  "currentWeapon (chr fired) = Some 0"
  "currentAmmo (w_stats (heap fired 0)) = 0"
  "\<not> w_isReloading (heap fired 0)"
  "\<not> isReloading (animState (chr fired))"
  "isShooting (animState (chr fired))"
  "currentAnimation (chr fired) = Some (Animation ''shoot.anim'' True)"
  by (simp_all add: fired_def scenario_defs)

lemma emptied_facts:
  "currentWeapon (chr emptied) = Some 0"
  "currentAmmo (w_stats (heap emptied 0)) = 0"
  "w_isReloading (heap emptied 0)"
  "isReloading (animState (chr emptied))"
  "currentAnimation (chr emptied) = Some (Animation ''reload.anim'' True)"
  by (simp_all add: emptied_def scenario_defs)

lemma emptied_is_Shoot_fired: "emptied = Shoot fired"
  by (simp add: emptied_def fired_def)

section \<open>The claims about shooting and reloading\<close>

lemma Shoot_empty_is_Reload:
  assumes "currentWeapon (chr s) = Some a"
    and "currentAmmo (w_stats (heap s a)) = 0"
    and "\<not> isReloading (animState (chr s))"
  shows "Shoot s = Reload s"
  using assms by (simp add: Shoot_def CanShoot_def NeedsReload_def word_sless_alt)

lemma Reload_effect:
  assumes "currentWeapon (chr s) = Some a"
    and "\<not> isReloading (animState (chr s))"
  shows "heap (Reload s) = (heap s)(a := StartReload (heap s a))"
    and "chr (Reload s) =
      PlayAnimation ''reload'' ((chr s)\<lparr>animState := (animState (chr s))\<lparr>isReloading := True\<rparr>\<rparr>)"
  using assms by (simp_all add: Reload_def)

lemma PlayAnimation_known:
  "animations c n = Some clip \<Longrightarrow> currentAnimation (PlayAnimation n c) = Some (Play clip)"
  by (simp add: PlayAnimation_def)

text \<open>
  C2. Take any character a program can have: made by the constructor and then given any
  calls. If a weapon is equipped, its \<open>currentAmmo\<close> is 0 and the character's
  \<open>isReloading\<close> flag is false, then \<open>Shoot()\<close> does exactly what \<open>Reload()\<close> does and
  does not fire: the weapon only gets \<open>StartReload()\<close>, so its \<open>currentAmmo\<close> is still
  0, the shooting flag is as before, the character's \<open>isReloading\<close> flag is true, and the
  clip now playing is the "reload" clip.
\<close>

theorem Shoot_with_empty_weapon_reloads:
  assumes "s = run cs (initial h p)"
    and "currentWeapon (chr s) = Some a"
    and "currentAmmo (w_stats (heap s a)) = 0"
    and "\<not> isReloading (animState (chr s))"
  shows "Shoot s = Reload s
    \<and> heap (Shoot s) a = StartReload (heap s a)
    \<and> currentAmmo (w_stats (heap (Shoot s) a)) = 0
    \<and> isShooting (animState (chr (Shoot s))) = isShooting (animState (chr s))
    \<and> isReloading (animState (chr (Shoot s)))
    \<and> currentAnimation (chr (Shoot s)) = Some (Animation ''reload.anim'' True)
    \<and> DetermineAnimation (chr (Shoot s)) = ''reload''"
proof -
  have eq: "Shoot s = Reload s"
    using assms(2-4) by (rule Shoot_empty_is_Reload)
  have hp: "heap (Reload s) a = StartReload (heap s a)"
    using Reload_effect(1) [OF assms(2,4)] by simp
  have ch: "chr (Reload s) =
      PlayAnimation ''reload'' ((chr s)\<lparr>animState := (animState (chr s))\<lparr>isReloading := True\<rparr>\<rparr>)"
    using assms(2,4) by (rule Reload_effect(2))
  have clip: "animations (chr s) ''reload'' = Some (Animation ''reload.anim'' False)"
    unfolding assms(1) by (rule reachable_reload_clip)
  have st: "animState (chr (Reload s)) = (animState (chr s))\<lparr>isReloading := True\<rparr>"
    by (simp add: ch PlayAnimation_frame)
  have an: "currentAnimation (chr (Reload s)) = Some (Animation ''reload.anim'' True)"
    using clip by (simp add: ch PlayAnimation_known Play_def)
  have "currentAmmo (w_stats (heap (Reload s) a)) = 0"
    using assms(3) by (simp add: hp w_stats_StartReload)
  moreover have "DetermineAnimation (chr (Reload s)) = ''reload''"
    by (simp add: DetermineAnimation_def st)
  ultimately show ?thesis
    using eq hp st an by simp
qed

text \<open>
  The scenario: the pistol was picked up and fired once, so it is equipped and empty, and
  the character is not reloading. The second \<open>Shoot()\<close> reloads.
\<close>

theorem Shoot_with_empty_weapon_reloads_witness:
  "currentWeapon (chr fired) = Some 0
   \<and> currentAmmo (w_stats (heap fired 0)) = 0
   \<and> \<not> isReloading (animState (chr fired))
   \<and> Shoot fired = Reload fired
   \<and> currentAmmo (w_stats (heap (Shoot fired) 0)) = 0
   \<and> isReloading (animState (chr (Shoot fired)))
   \<and> currentAnimation (chr (Shoot fired)) = Some (Animation ''reload.anim'' True)
   \<and> DetermineAnimation (chr (Shoot fired)) = ''reload''"
  using Shoot_with_empty_weapon_reloads [OF fired_def fired_facts(1,2,4)] fired_facts(1,2,4)
  by blast

text \<open>
  The scenario: the emptied pistol is reloading. Whatever is called next, on the character
  or on the pistol itself, it is still reloading and still empty.
\<close>

theorem reload_never_completes_witness:
  "w_isReloading (heap emptied 0)
   \<and> currentAmmo (w_stats (heap emptied 0)) = 0
   \<and> w_isReloading (heap (run [Call_Shoot, Call_Reload, Call_Weapon_Shoot 0,
        Call_Weapon_StartReload 0, Call_PickupWeapon (Some 1), Call_Shoot] emptied) 0)
   \<and> currentAmmo (w_stats (heap (run [Call_Shoot, Call_Reload, Call_Weapon_Shoot 0,
        Call_Weapon_StartReload 0, Call_PickupWeapon (Some 1), Call_Shoot] emptied) 0)) = 0"
  using reload_never_completes [of pistol emptied 0 "[Call_Shoot, Call_Reload,
    Call_Weapon_Shoot 0, Call_Weapon_StartReload 0, Call_PickupWeapon (Some 1), Call_Shoot]"]
    emptied_facts(2,3)
  by simp

section \<open>The claims about the inventory\<close>

lemma pickups_four_from_empty:
  assumes "inventory c = []"
  shows "fst (pickups [w1, w2, w3, w4] c) = [True, True, True, False]"
    and "inventory (snd (pickups [w1, w2, w3, w4] c)) = [w1, w2, w3]"
  using assms by (simp_all add: PickupWeapon_def MAX_WEAPONS_def Let_def split_beta)

lemma initial_inventory_le: "length (inventory (chr (initial h p))) \<le> MAX_WEAPONS"
  by (simp add: initial_def new_MilitaryCharacter_empty)

text \<open>
  C4. \<open>PickupWeapon\<close> returns true exactly when the inventory holds fewer than 3 pointers
  at the call. When it returns true the pointer is appended to the inventory; when it
  returns false the character is unchanged. Four calls on a character with an empty
  inventory return true, true, true, false and leave the first three pointers in the
  inventory. An inventory of at most 3 pointers has at most 3 after any sequence of calls,
  and so has every character made by the constructor.
\<close>

theorem PickupWeapon_capacity:
  "fst (PickupWeapon w c) = (length (inventory c) < 3)
   \<and> (length (inventory c) < 3 \<longrightarrow> inventory (snd (PickupWeapon w c)) = inventory c @ [w])
   \<and> (\<not> length (inventory c) < 3 \<longrightarrow> PickupWeapon w c = (False, c))
   \<and> (inventory c = [] \<longrightarrow>
        fst (pickups [w1, w2, w3, w4] c) = [True, True, True, False]
        \<and> inventory (snd (pickups [w1, w2, w3, w4] c)) = [w1, w2, w3])
   \<and> (length (inventory (chr s)) \<le> 3 \<longrightarrow> length (inventory (chr (run cs s))) \<le> 3)
   \<and> length (inventory (chr (run cs (initial h p)))) \<le> 3"
proof -
  have "fst (PickupWeapon w c) = (length (inventory c) < 3)"
    using PickupWeapon_fst [of w c] by (simp add: MAX_WEAPONS_def)
  moreover have "length (inventory c) < 3 \<longrightarrow>
      inventory (snd (PickupWeapon w c)) = inventory c @ [w]"
    using PickupWeapon_inventory [of c w] by (simp add: MAX_WEAPONS_def)
  moreover have "\<not> length (inventory c) < 3 \<longrightarrow> PickupWeapon w c = (False, c)"
    using PickupWeapon_full [of c w] by (simp add: MAX_WEAPONS_def)
  moreover have "inventory c = [] \<longrightarrow>
      fst (pickups [w1, w2, w3, w4] c) = [True, True, True, False]
      \<and> inventory (snd (pickups [w1, w2, w3, w4] c)) = [w1, w2, w3]"
    using pickups_four_from_empty [of c w1 w2 w3 w4] by blast
  moreover have "length (inventory (chr s)) \<le> 3 \<longrightarrow> length (inventory (chr (run cs s))) \<le> 3"
    using run_length_le [of s cs] by (simp add: MAX_WEAPONS_def)
  moreover have "length (inventory (chr (run cs (initial h p)))) \<le> 3"
    using run_length_le [OF initial_inventory_le, of cs h p] by (simp add: MAX_WEAPONS_def)
  ultimately show ?thesis by blast
qed

text \<open>
  The new character has an empty inventory: it takes a first pistol, and of four pickups
  the fourth fails. A character that already holds three is left as it is by a further
  pickup, and still holds three after more calls.
\<close>

theorem PickupWeapon_capacity_witness:
  "length (inventory fresh) < 3
   \<and> fst (PickupWeapon (Some 0) fresh)
   \<and> inventory (snd (PickupWeapon (Some 0) fresh)) = [Some 0]
   \<and> fst (pickups [Some 0, Some 1, Some 2, Some 3] fresh) = [True, True, True, False]
   \<and> inventory (snd (pickups [Some 0, Some 1, Some 2, Some 3] fresh)) = [Some 0, Some 1, Some 2]
   \<and> \<not> length (inventory (snd (pickups [Some 0, Some 1, Some 2] fresh))) < 3
   \<and> PickupWeapon (Some 3) (snd (pickups [Some 0, Some 1, Some 2] fresh))
       = (False, snd (pickups [Some 0, Some 1, Some 2] fresh))
   \<and> length (inventory (chr (run [Call_PickupWeapon (Some 1), Call_PickupWeapon (Some 2),
        Call_PickupWeapon (Some 3), Call_Shoot] armed))) \<le> 3"
proof -
  let ?full = "snd (pickups [Some 0, Some 1, Some 2] fresh)"
  let ?cs = "[Call_PickupWeapon (Some 1), Call_PickupWeapon (Some 2),
    Call_PickupWeapon (Some 3), Call_Shoot]"
  have e: "inventory fresh = []"
    by (simp add: fresh_def new_MilitaryCharacter_empty)
  have f: "inventory ?full = [Some 0, Some 1, Some 2]"
    using e by (simp add: PickupWeapon_def MAX_WEAPONS_def Let_def split_beta)
  have a: "length (inventory (chr armed)) \<le> 3"
    by (simp add: armed_facts)
  show ?thesis
    using PickupWeapon_capacity [of "Some 0" fresh "Some 0" "Some 1" "Some 2" "Some 3"
        armed ?cs armory origin]
      PickupWeapon_capacity [of "Some 3" ?full "Some 0" "Some 1" "Some 2" "Some 3"
        armed ?cs armory origin] e f a
    by simp
qed

text \<open>
  C5, as stated: once a first \<open>PickupWeapon\<close> call has succeeded on a character with no
  equipped weapon, later calls leave \<open>currentWeapon\<close> unchanged. This fails when the
  first pointer picked up is null: the call succeeds and appends it, \<open>currentWeapon\<close> is
  set to it and so is still null, and the next pickup changes \<open>currentWeapon\<close>.
\<close>

theorem PickupWeapon_after_null_counterexample:
  "currentWeapon fresh = None
   \<and> fst (PickupWeapon None fresh)
   \<and> inventory (snd (PickupWeapon None fresh)) = [None]
   \<and> currentWeapon (snd (PickupWeapon None fresh)) = None
   \<and> fst (PickupWeapon (Some 0) (snd (PickupWeapon None fresh)))
   \<and> currentWeapon (snd (PickupWeapon (Some 0) (snd (PickupWeapon None fresh)))) = Some 0
   \<and> currentWeapon (snd (PickupWeapon (Some 0) (snd (PickupWeapon None fresh))))
       \<noteq> currentWeapon (snd (PickupWeapon None fresh))"
  by (simp add: fresh_def new_MilitaryCharacter_def LoadAnimations_def InitializePhysics_def
      PickupWeapon_def MAX_WEAPONS_def Let_def)

text \<open>
  C5, amended. A successful \<open>PickupWeapon\<close> call on a character with no equipped weapon
  sets \<open>currentWeapon\<close> to the pointer picked up. Once \<open>currentWeapon\<close> is not null,
  every \<open>PickupWeapon\<close> call, successful or not, leaves it unchanged; a failed call
  leaves it unchanged in any case. So after the first successful pickup of a pointer that
  is not null, that weapon stays equipped through any further pickups.
\<close>

theorem PickupWeapon_equips_first_weapon_only:
  "(currentWeapon c = None \<and> length (inventory c) < 3 \<longrightarrow>
      currentWeapon (snd (PickupWeapon w c)) = w)
   \<and> (currentWeapon c = Some a \<longrightarrow> currentWeapon (snd (PickupWeapon w c)) = Some a)
   \<and> (\<not> length (inventory c) < 3 \<longrightarrow>
      currentWeapon (snd (PickupWeapon w c)) = currentWeapon c)
   \<and> (currentWeapon c = None \<and> length (inventory c) < 3 \<longrightarrow>
      currentWeapon (snd (pickups ws (snd (PickupWeapon (Some a) c)))) = Some a)"
proof -
  have first: "currentWeapon c = None \<and> length (inventory c) < 3 \<longrightarrow>
      currentWeapon (snd (PickupWeapon w c)) = w" for w
    by (simp add: PickupWeapon_currentWeapon MAX_WEAPONS_def)
  have later: "currentWeapon c = Some a \<longrightarrow> currentWeapon (snd (PickupWeapon w c)) = Some a"
    by (simp add: PickupWeapon_currentWeapon)
  have failed: "\<not> length (inventory c) < 3 \<longrightarrow>
      currentWeapon (snd (PickupWeapon w c)) = currentWeapon c"
    by (simp add: PickupWeapon_currentWeapon MAX_WEAPONS_def)
  have "currentWeapon c = None \<and> length (inventory c) < 3 \<longrightarrow>
      currentWeapon (snd (pickups ws (snd (PickupWeapon (Some a) c)))) = Some a"
    using first [of "Some a"] pickups_equipped_stays [of "snd (PickupWeapon (Some a) c)" a ws]
    by blast
  with first [of w] later failed show ?thesis by blast
qed

text \<open>
  The new character has no weapon and an empty inventory: the pistol at address 0 becomes
  equipped and stays so through four more pickups, one of them null and the last two
  failing. On the armed character a pickup changes nothing, nor does one on a full
  inventory.
\<close>

theorem PickupWeapon_equips_first_weapon_only_witness:
  "currentWeapon fresh = None \<and> length (inventory fresh) < 3
   \<and> currentWeapon (snd (PickupWeapon (Some 0) fresh)) = Some 0
   \<and> currentWeapon (snd (pickups [Some 1, None, Some 2, Some 3]
        (snd (PickupWeapon (Some 0) fresh)))) = Some 0
   \<and> currentWeapon (chr armed) = Some 0
   \<and> currentWeapon (snd (PickupWeapon (Some 1) (chr armed))) = Some 0
   \<and> \<not> length (inventory (snd (pickups [None, None, None] fresh))) < 3
   \<and> currentWeapon (snd (PickupWeapon (Some 1) (snd (pickups [None, None, None] fresh))))
       = currentWeapon (snd (pickups [None, None, None] fresh))"
proof -
  let ?full = "snd (pickups [None, None, None] fresh)"
  have e: "currentWeapon fresh = None" "inventory fresh = []"
    by (simp_all add: fresh_def new_MilitaryCharacter_empty)
  have f: "inventory ?full = [None, None, None]"
    using e by (simp add: PickupWeapon_def MAX_WEAPONS_def Let_def split_beta)
  show ?thesis
    using PickupWeapon_equips_first_weapon_only [of fresh "Some 0" 0 "[Some 1, None, Some 2, Some 3]"]
      PickupWeapon_equips_first_weapon_only [of "chr armed" "Some 1" 0 "[]"]
      PickupWeapon_equips_first_weapon_only [of ?full "Some 1" 0 "[]"]
      e f armed_facts(1)
    by simp
qed

section \<open>The equipped weapon is in the inventory\<close>

lemma new_MilitaryCharacter_equipped_in_inventory:
  "equipped_in_inventory (new_MilitaryCharacter p)"
  by (simp add: equipped_in_inventory_def new_MilitaryCharacter_empty)

lemma step_changes_currentWeapon:
  assumes "currentWeapon (chr (step c s)) \<noteq> currentWeapon (chr s)"
  shows "c = Call_PickupWeapon (currentWeapon (chr (step c s)))"
    and "inventory (chr (step c s)) = inventory (chr s) @ [currentWeapon (chr (step c s))]"
proof -
  obtain w where c: "c = Call_PickupWeapon w"
    using assms step_not_pickup(1) [of c s] by blast
  have ch: "currentWeapon (snd (PickupWeapon w (chr s))) \<noteq> currentWeapon (chr s)"
    using assms by (simp add: c)
  then have ok: "length (inventory (chr s)) < MAX_WEAPONS" and w: "currentWeapon (snd (PickupWeapon w (chr s))) = w"
    by (simp_all add: PickupWeapon_currentWeapon split: if_splits)
  show "c = Call_PickupWeapon (currentWeapon (chr (step c s)))"
    using w by (simp add: c)
  show "inventory (chr (step c s)) = inventory (chr s) @ [currentWeapon (chr (step c s))]"
    using w ok by (simp add: c PickupWeapon_inventory)
qed

text \<open>
  C10. The constructor leaves no weapon equipped. Every call keeps the invariant that the
  equipped weapon, when there is one, is a pointer held in the inventory; so it holds after
  any sequence of calls, and for every character made by the constructor. The equipped
  weapon changes only in a \<open>PickupWeapon\<close> call, to the pointer passed, which that call
  has just appended to the inventory.
\<close>

theorem equipped_weapon_is_in_inventory:
  "equipped_in_inventory (new_MilitaryCharacter p)
   \<and> (equipped_in_inventory (chr s) \<longrightarrow> equipped_in_inventory (chr (step c s)))
   \<and> (equipped_in_inventory (chr s) \<longrightarrow> equipped_in_inventory (chr (run cs s)))
   \<and> (currentWeapon (chr (run cs (initial h p))) = Some a \<longrightarrow>
        Some a \<in> set (inventory (chr (run cs (initial h p)))))
   \<and> (currentWeapon (chr (step c s)) \<noteq> currentWeapon (chr s) \<longrightarrow>
        c = Call_PickupWeapon (currentWeapon (chr (step c s)))
        \<and> inventory (chr (step c s)) = inventory (chr s) @ [currentWeapon (chr (step c s))])"
proof -
  have "equipped_in_inventory (chr (initial h p))"
    by (simp add: initial_def new_MilitaryCharacter_equipped_in_inventory)
  then have "equipped_in_inventory (chr (run cs (initial h p)))"
    by (rule run_equipped_in_inventory)
  then have "currentWeapon (chr (run cs (initial h p))) = Some a \<longrightarrow>
      Some a \<in> set (inventory (chr (run cs (initial h p))))"
    by (auto simp: equipped_in_inventory_def split: option.splits)
  then show ?thesis
    using new_MilitaryCharacter_equipped_in_inventory [of p]
      step_equipped_in_inventory [of s c] run_equipped_in_inventory [of s cs]
      step_changes_currentWeapon [of c s]
    by blast
qed

text \<open>
  The armed character satisfies the invariant, and keeps it when it shoots and picks up
  more. The pistol it holds came with the one call that changed the equipped weapon.
\<close>

theorem equipped_weapon_is_in_inventory_witness:
  "equipped_in_inventory (chr armed)
   \<and> equipped_in_inventory (chr (step Call_Shoot armed))
   \<and> equipped_in_inventory (chr (run [Call_Shoot, Call_PickupWeapon (Some 1)] armed))
   \<and> currentWeapon (chr (run [Call_PickupWeapon (Some 0)] (initial armory origin))) = Some 0
   \<and> Some 0 \<in> set (inventory (chr (run [Call_PickupWeapon (Some 0)] (initial armory origin))))
   \<and> currentWeapon (chr (step (Call_PickupWeapon (Some 0)) (initial armory origin)))
        \<noteq> currentWeapon (chr (initial armory origin))
   \<and> inventory (chr (step (Call_PickupWeapon (Some 0)) (initial armory origin)))
        = inventory (chr (initial armory origin)) @ [Some 0]"
proof -
  have a: "equipped_in_inventory (chr armed)"
    by (simp add: equipped_in_inventory_def armed_facts)
  have b: "currentWeapon (chr (run [Call_PickupWeapon (Some 0)] (initial armory origin))) = Some 0"
    using armed_facts(1) by (simp add: armed_def)
  have c: "currentWeapon (chr (initial armory origin)) = None"
    by (simp add: initial_def new_MilitaryCharacter_empty)
  have d: "currentWeapon (chr (step (Call_PickupWeapon (Some 0)) (initial armory origin))) = Some 0"
    using b by simp
  show ?thesis
    using equipped_weapon_is_in_inventory [of origin armed Call_Shoot
        "[Call_Shoot, Call_PickupWeapon (Some 1)]" armory 0]
      equipped_weapon_is_in_inventory [of origin "initial armory origin"
        "Call_PickupWeapon (Some 0)" "[Call_PickupWeapon (Some 0)]" armory 0]
      a b c d
    by simp
qed

section \<open>The claim about sprinting\<close>

lemma StartSprint_allowed:
  "\<not> isCrouching (animState c) \<Longrightarrow> \<not> isAiming (animState c) \<Longrightarrow>
     animState (StartSprint c) = (animState c)\<lparr>isRunning := True\<rparr>"
  by (simp add: StartSprint_def UpdateAnimation_frame)

text \<open>
  C6. When \<open>isCrouching\<close> or \<open>isAiming\<close> is true at the call, \<open>StartSprint()\<close> returns
  the character unchanged, so an \<open>isRunning\<close> flag that is false stays false. If the call
  turns \<open>isRunning\<close> from false to true, the character was neither crouching nor aiming;
  and a character that is neither does start running.
\<close>

theorem StartSprint_blocked_when_crouching_or_aiming:
  "(isCrouching (animState c) \<or> isAiming (animState c) \<longrightarrow> StartSprint c = c)
   \<and> ((isCrouching (animState c) \<or> isAiming (animState c)) \<and> \<not> isRunning (animState c) \<longrightarrow>
        \<not> isRunning (animState (StartSprint c)))
   \<and> (isRunning (animState (StartSprint c)) \<and> \<not> isRunning (animState c) \<longrightarrow>
        \<not> isCrouching (animState c) \<and> \<not> isAiming (animState c))
   \<and> (\<not> isCrouching (animState c) \<and> \<not> isAiming (animState c) \<longrightarrow>
        isRunning (animState (StartSprint c)))"
proof -
  have blocked: "isCrouching (animState c) \<or> isAiming (animState c) \<longrightarrow> StartSprint c = c"
    by (auto simp: StartSprint_def)
  have "\<not> isCrouching (animState c) \<and> \<not> isAiming (animState c) \<longrightarrow>
      isRunning (animState (StartSprint c))"
    by (simp add: StartSprint_allowed)
  with blocked show ?thesis by metis
qed

text \<open>
  A crouching character and an aiming one, neither running: \<open>StartSprint()\<close> changes
  nothing. The new character stands and does not aim: it starts running.
\<close>

theorem StartSprint_blocked_when_crouching_or_aiming_witness:
  "isCrouching (animState (ToggleCrouch fresh))
   \<and> \<not> isRunning (animState (ToggleCrouch fresh))
   \<and> StartSprint (ToggleCrouch fresh) = ToggleCrouch fresh
   \<and> \<not> isRunning (animState (StartSprint (ToggleCrouch fresh)))
   \<and> isAiming (animState (fresh\<lparr>animState := (animState fresh)\<lparr>isAiming := True\<rparr>\<rparr>))
   \<and> StartSprint (fresh\<lparr>animState := (animState fresh)\<lparr>isAiming := True\<rparr>\<rparr>)
       = fresh\<lparr>animState := (animState fresh)\<lparr>isAiming := True\<rparr>\<rparr>
   \<and> \<not> isCrouching (animState fresh) \<and> \<not> isAiming (animState fresh)
   \<and> \<not> isRunning (animState fresh)
   \<and> isRunning (animState (StartSprint fresh))"
proof -
  let ?aim = "fresh\<lparr>animState := (animState fresh)\<lparr>isAiming := True\<rparr>\<rparr>"
  have f: "animState fresh = default_AnimationState"
    by (simp add: fresh_def new_MilitaryCharacter_def LoadAnimations_def InitializePhysics_def)
  have c: "animState (ToggleCrouch fresh) = default_AnimationState\<lparr>isCrouching := True\<rparr>"
    by (simp add: ToggleCrouch_def UpdateAnimation_frame f default_AnimationState_def)
  have "isCrouching (animState (ToggleCrouch fresh))"
    and "\<not> isRunning (animState (ToggleCrouch fresh))"
    and "isAiming (animState ?aim)"
    and "\<not> isCrouching (animState fresh)" and "\<not> isAiming (animState fresh)"
    and "\<not> isRunning (animState fresh)"
    by (simp_all add: c f default_AnimationState_def)
  then show ?thesis
    using StartSprint_blocked_when_crouching_or_aiming [of "ToggleCrouch fresh"]
      StartSprint_blocked_when_crouching_or_aiming [of ?aim]
      StartSprint_blocked_when_crouching_or_aiming [of fresh]
    by blast
qed

section \<open>Rounding to binary32\<close>

lemma pow2_powi: "pow2 e = 2 powi e"
  by (simp add: pow2_def power_int_def inverse_eq_divide power_one_over)

lemma pow2_pos: "0 < pow2 e"
  by (simp add: pow2_powi)

lemma pow2_mono: "e \<le> e' \<Longrightarrow> pow2 e \<le> pow2 e'"
  by (simp add: pow2_powi power_int_increasing)

lemma ulp_from_eqI:
  assumes "s \<le> e" and "e \<le> 104" and "\<bar>x\<bar> < pow2 (e + 24)"
    and "s < e \<Longrightarrow> pow2 (e + 23) \<le> \<bar>x\<bar>"
  shows "ulp_from s x = e"
  using assms
proof (induction s x rule: ulp_from.induct)
  case (1 s x)
  show ?case
  proof (cases "s = e")
    case True
    then show ?thesis
      using "1.prems"(3) by (simp add: ulp_from.simps)
  next
    case False
    then have lt: "s < e" using "1.prems"(1) by simp
    have "pow2 (s + 24) \<le> pow2 (e + 23)"
      using lt by (intro pow2_mono) simp
    then have big: "\<not> \<bar>x\<bar> < pow2 (s + 24)"
      using "1.prems"(4) [OF lt] by simp
    have small: "\<not> 104 \<le> s"
      using lt "1.prems"(2) by simp
    have "ulp_from (s + 1) x = e"
      using big small lt "1.prems"(2-4) by (intro "1.IH") simp_all
    then show ?thesis
      using big small by (subst ulp_from.simps) simp
  qed
qed

lemma ulp_exp_eqI:
  assumes "- 149 \<le> e" and "e \<le> 104" and "\<bar>x\<bar> < pow2 (e + 24)"
    and "- 149 < e \<Longrightarrow> pow2 (e + 23) \<le> \<bar>x\<bar>"
  shows "ulp_exp x = e"
  unfolding ulp_exp_def using assms by (rule ulp_from_eqI)

lemma round_even_eqI:
  assumes "\<bar>q - of_int n\<bar> < 1 / 2"
  shows "round_even q = n"
proof (cases "of_int n \<le> q")
  case True
  then have "\<lfloor>q\<rfloor> = n"
    using assms by (intro floor_unique) simp_all
  then show ?thesis
    using assms True by (simp add: round_even_def Let_def)
next
  case False
  then have "\<lfloor>q\<rfloor> = n - 1"
    using assms by (intro floor_unique) simp_all
  then show ?thesis
    using assms False by (simp add: round_even_def Let_def)
qed

lemma rnd_eqI:
  assumes "- 149 \<le> e" and "e \<le> 104" and "\<bar>x\<bar> < pow2 (e + 24)"
    and "- 149 < e \<Longrightarrow> pow2 (e + 23) \<le> \<bar>x\<bar>"
    and "\<bar>x / pow2 e - of_int n\<bar> < 1 / 2"
    and "\<bar>n\<bar> < 2 ^ 24"
  shows "rnd x = Flt (of_int n * pow2 e)"
proof -
  have e: "ulp_exp x = e"
    using assms(1-4) by (rule ulp_exp_eqI)
  have n: "round_even (x / pow2 e) = n"
    using assms(5) by (rule round_even_eqI)
  have "\<bar>of_int n :: real\<bar> \<le> 2 ^ 24 - 1"
  proof -
    have "\<bar>n\<bar> \<le> 2 ^ 24 - 1" using assms(6) by simp
    then have "of_int \<bar>n\<bar> \<le> (of_int (2 ^ 24 - 1) :: real)"
      by (rule of_int_le_iff [THEN iffD2])
    then show ?thesis by simp
  qed
  moreover have "pow2 e \<le> pow2 104"
    using assms(2) by (rule pow2_mono)
  ultimately have "\<bar>of_int n\<bar> * pow2 e \<le> (2 ^ 24 - 1) * pow2 104"
    using pow2_pos [of e] by (intro mult_mono) simp_all
  also have "\<dots> < pow2 128"
    by (simp add: pow2_def)
  finally have "\<bar>of_int n * pow2 e\<bar> < pow2 128"
    using pow2_pos [of e] by (simp add: abs_mult)
  then have "\<not> pow2 128 \<le> of_int n * pow2 e" and "\<not> of_int n * pow2 e \<le> - pow2 128"
    by linarith+
  then show ?thesis
    by (simp add: rnd_def Let_def e n)
qed

text \<open>The numbers the examples below need.\<close>

lemma rnd_0: "rnd 0 = Flt 0"
  using rnd_eqI [of "- 149" 0 0] by (simp add: pow2_def)

lemma rnd_1: "rnd 1 = Flt 1"
  using rnd_eqI [of "- 23" 1 8388608] by (simp add: pow2_def)

lemma rnd_180: "rnd 180 = Flt 180" "rnd (- 180) = Flt (- 180)"
  using rnd_eqI [of "- 16" 180 11796480] rnd_eqI [of "- 16" "- 180" "- 11796480"]
  by (simp_all add: pow2_def)

lemma rnd_540: "rnd 540 = Flt 540"
  using rnd_eqI [of "- 14" 540 8847360] by (simp add: pow2_def)

lemma rnd_16200: "rnd 16200 = Flt 16200"
  using rnd_eqI [of "- 10" 16200 16588800] by (simp add: pow2_def)

lemma float_literal_tenth: "float_literal (1 / 10) = Flt (13421773 / 134217728)"
  using rnd_eqI [of "- 27" "1 / 10" 13421773] by (simp add: float_literal_def pow2_def)

lemma rnd_tenth_f: "rnd (13421773 / 134217728) = Flt (13421773 / 134217728)"
  using rnd_eqI [of "- 27" "13421773 / 134217728" 13421773] by (simp add: pow2_def)

lemma rnd_tenth_f_squared:
  "rnd (13421773 / 134217728 * (13421773 / 134217728)) = Flt (10737419 / 1073741824)"
  using rnd_eqI [of "- 30" "13421773 / 134217728 * (13421773 / 134217728)" 10737419]
  by (simp add: pow2_def)

lemma rnd_sqrt_tenth_f_squared:
  "rnd (sqrt (10737419 / 1073741824)) = Flt (13421773 / 134217728)"
proof -
  let ?q = "10737419 / 1073741824 :: real"
  have lo: "26843545 / 268435456 < sqrt ?q"
    by (rule real_less_rsqrt) (simp add: power2_eq_square)
  have hi: "sqrt ?q < 26843547 / 268435456"
    by (rule real_less_lsqrt) (simp_all add: power2_eq_square)
  have "rnd (sqrt ?q) = Flt (of_int 13421773 * pow2 (- 27))"
  proof (rule rnd_eqI)
    show "\<bar>sqrt ?q\<bar> < pow2 (- 27 + 24)"
      using hi by (simp add: pow2_def)
    show "pow2 (- 27 + 23) \<le> \<bar>sqrt ?q\<bar>"
      using lo by (simp add: pow2_def)
    have "\<bar>sqrt ?q * 134217728 - 13421773\<bar> < 1 / 2"
      using lo hi by linarith
    then show "\<bar>sqrt ?q / pow2 (- 27) - of_int 13421773\<bar> < 1 / 2"
      by (simp add: pow2_def)
  qed simp_all
  then show ?thesis by (simp add: pow2_def)
qed

lemma rnd_tenth_f_squared_again:
  "rnd (10737419 / 1073741824) = Flt (10737419 / 1073741824)"
  using rnd_eqI [of "- 30" "10737419 / 1073741824" 10737419] by (simp add: pow2_def)

text \<open>A sum that lies halfway between two binary32 numbers goes to the even one.\<close>

lemma rnd_tie: "rnd (16200 + 45 / 2048) = Flt (16200 + 11 / 512)"
proof -
  have "ulp_exp (16200 + 45 / 2048) = - 10"
    by (rule ulp_exp_eqI) (simp_all add: pow2_def)
  moreover have "round_even ((16200 + 45 / 2048) / pow2 (- 10)) = 16588822"
    by (simp add: pow2_def round_even_def Let_def)
  ultimately show ?thesis
    by (simp add: rnd_def Let_def pow2_def)
qed

section \<open>The claim about the animation\<close>

lemma glm_length_origin: "glm_length origin = Flt 0"
  by (simp add: origin_def vec3_of_def glm_length_def glm_dot_def rnd_0)

lemma glm_length_unit: "glm_length (Vec3 (Flt 1) (Flt 0) (Flt 0)) = Flt 1"
  by (simp add: glm_length_def glm_dot_def rnd_0 rnd_1)

lemma glm_length_NaN: "glm_length (vec3_of NaN) = NaN"
  by (simp add: vec3_of_def glm_length_def glm_dot_def)

lemma glm_length_tenth_f:
  "glm_length (Vec3 (Flt (13421773 / 134217728)) (Flt 0) (Flt 0)) = Flt (13421773 / 134217728)"
proof -
  have m: "fmul (Flt (13421773 / 134217728)) (Flt (13421773 / 134217728))
      = Flt (10737419 / 1073741824)"
    by (simp only: fmul.simps rnd_tenth_f_squared)
  have z: "fmul (Flt 0) (Flt 0) = Flt 0"
    by (simp add: rnd_0)
  have a: "fadd (Flt (10737419 / 1073741824)) (Flt 0) = Flt (10737419 / 1073741824)"
    by (simp add: rnd_tenth_f_squared_again)
  have s: "fsqrt (Flt (10737419 / 1073741824)) = Flt (13421773 / 134217728)"
    by (simp add: rnd_sqrt_tenth_f_squared)
  show ?thesis
    by (simp only: glm_length_def glm_dot_def vec3.sel m z a s)
qed

lemma posed_fields:
  "animState (posed r s c u v) =
     \<lparr>isRunning = u, isCrouching = c, isAiming = False, isShooting = s, isReloading = r\<rparr>"
  "velocity (posed r s c u v) = v"
  by (simp_all add: posed_def)

text \<open>
  C1, as stated: with no flag set, a velocity of length greater than 0.1 yields "walk".
  The velocity (0.1f, 0, 0), where 0.1f is the binary32 number 13421773/134217728 that the
  literal denotes, has a length greater than 0.1. The code computes that length in binary32
  as 0.1f and compares it with the constant 0.1f: it is not greater, and the result is
  "idle".
\<close>

theorem DetermineAnimation_threshold_counterexample:
  "rnd (13421773 / 134217728) = Flt (13421773 / 134217728)
   \<and> (1 / 10 :: real) < sqrt (13421773 / 134217728 * (13421773 / 134217728) + 0 * 0 + 0 * 0)
   \<and> glm_length (Vec3 (Flt (13421773 / 134217728)) (Flt 0) (Flt 0))
       = Flt (13421773 / 134217728)
   \<and> float_literal (1 / 10) = Flt (13421773 / 134217728)
   \<and> DetermineAnimation
        (posed False False False False (Vec3 (Flt (13421773 / 134217728)) (Flt 0) (Flt 0)))
       = ''idle''"
proof -
  have "(1 / 10 :: real) < sqrt (13421773 / 134217728 * (13421773 / 134217728) + 0 * 0 + 0 * 0)"
    by (rule real_less_rsqrt) (simp add: power2_eq_square)
  then show ?thesis
    by (simp add: rnd_tenth_f glm_length_tenth_f float_literal_tenth DetermineAnimation_def
        posed_fields)
qed

text \<open>
  C1, amended. \<open>DetermineAnimation\<close> returns one of six names, which are six different
  strings. The first flag set, in the order \<open>isReloading\<close>, \<open>isShooting\<close>,
  \<open>isCrouching\<close>, \<open>isRunning\<close>, decides the name; with none set it is "walk" when the
  length of the velocity, as \<open>glm::length\<close> computes it in binary32, is greater than the
  binary32 constant 0.1f, which is 13421773/134217728, and "idle" otherwise. So a finite
  computed length yields "walk" exactly when it exceeds that number.
\<close>

theorem DetermineAnimation_priority:
  "DetermineAnimation c \<in> set [''reload'', ''shoot'', ''crouch'', ''run'', ''walk'', ''idle'']
   \<and> distinct [''reload'', ''shoot'', ''crouch'', ''run'', ''walk'', ''idle'']
   \<and> (isReloading (animState c) \<longrightarrow> DetermineAnimation c = ''reload'')
   \<and> (\<not> isReloading (animState c) \<and> isShooting (animState c) \<longrightarrow>
        DetermineAnimation c = ''shoot'')
   \<and> (\<not> isReloading (animState c) \<and> \<not> isShooting (animState c) \<and> isCrouching (animState c) \<longrightarrow>
        DetermineAnimation c = ''crouch'')
   \<and> (\<not> isReloading (animState c) \<and> \<not> isShooting (animState c) \<and> \<not> isCrouching (animState c)
        \<and> isRunning (animState c) \<longrightarrow>
        DetermineAnimation c = ''run'')
   \<and> (\<not> isReloading (animState c) \<and> \<not> isShooting (animState c) \<and> \<not> isCrouching (animState c)
        \<and> \<not> isRunning (animState c)
        \<and> fgt (glm_length (velocity c)) (float_literal (1 / 10)) \<longrightarrow>
        DetermineAnimation c = ''walk'')
   \<and> (\<not> isReloading (animState c) \<and> \<not> isShooting (animState c) \<and> \<not> isCrouching (animState c)
        \<and> \<not> isRunning (animState c)
        \<and> \<not> fgt (glm_length (velocity c)) (float_literal (1 / 10)) \<longrightarrow>
        DetermineAnimation c = ''idle'')
   \<and> float_literal (1 / 10) = Flt (13421773 / 134217728)
   \<and> (glm_length (velocity c) = Flt l \<longrightarrow>
        fgt (glm_length (velocity c)) (float_literal (1 / 10)) = (13421773 / 134217728 < l))"
proof -
  have "glm_length (velocity c) = Flt l \<longrightarrow>
      fgt (glm_length (velocity c)) (float_literal (1 / 10)) = (13421773 / 134217728 < l)"
    by (simp add: float_literal_tenth)
  moreover have "distinct [''reload'', ''shoot'', ''crouch'', ''run'', ''walk'', ''idle'']"
    by simp
  moreover have
    "DetermineAnimation c \<in> set [''reload'', ''shoot'', ''crouch'', ''run'', ''walk'', ''idle'']"
    by (simp add: DetermineAnimation_def)
  ultimately show ?thesis
    using float_literal_tenth by (simp add: DetermineAnimation_def)
qed

text \<open>
  Each of the six names is returned, by the first flag set: with all four flags set,
  with all but the reloading flag, with crouching and running, with running alone; with no
  flag set, at velocity (1, 0, 0), of computed length 1, and at velocity zero. A velocity of
  NaN components has length NaN, which is not greater than 0.1f.
\<close>

theorem DetermineAnimation_priority_witness:
  "DetermineAnimation (posed True True True True origin) = ''reload''
   \<and> DetermineAnimation (posed False True True True origin) = ''shoot''
   \<and> DetermineAnimation (posed False False True True origin) = ''crouch''
   \<and> DetermineAnimation (posed False False False True origin) = ''run''
   \<and> glm_length (velocity (posed False False False False (Vec3 (Flt 1) (Flt 0) (Flt 0)))) = Flt 1
   \<and> fgt (glm_length (velocity (posed False False False False (Vec3 (Flt 1) (Flt 0) (Flt 0)))))
        (float_literal (1 / 10))
   \<and> DetermineAnimation (posed False False False False (Vec3 (Flt 1) (Flt 0) (Flt 0))) = ''walk''
   \<and> \<not> fgt (glm_length (velocity (posed False False False False origin)))
        (float_literal (1 / 10))
   \<and> DetermineAnimation (posed False False False False origin) = ''idle''
   \<and> \<not> fgt (glm_length (velocity (posed False False False False (vec3_of NaN))))
        (float_literal (1 / 10))
   \<and> DetermineAnimation (posed False False False False (vec3_of NaN)) = ''idle''"
  using DetermineAnimation_priority [of "posed True True True True origin" 0]
    DetermineAnimation_priority [of "posed False True True True origin" 0]
    DetermineAnimation_priority [of "posed False False True True origin" 0]
    DetermineAnimation_priority [of "posed False False False True origin" 0]
    DetermineAnimation_priority [of "posed False False False False (Vec3 (Flt 1) (Flt 0) (Flt 0))" 1]
    DetermineAnimation_priority [of "posed False False False False origin" 0]
    DetermineAnimation_priority [of "posed False False False False (vec3_of NaN)" 0]
  by (simp add: posed_fields glm_length_unit glm_length_origin glm_length_NaN)

section \<open>The claim about rotation\<close>

lemma wrap360_bounds: "0 \<le> wrap360 x \<and> wrap360 x < 360"
proof -
  have "of_int \<lfloor>x / 360\<rfloor> \<le> x / 360" and "x / 360 < of_int \<lfloor>x / 360\<rfloor> + 1"
    by linarith+
  then show ?thesis
    by (simp add: wrap360_def field_simps)
qed

lemma fmod_360_nonneg: "0 \<le> x \<Longrightarrow> fmod (Flt x) (Flt 360) = Flt (wrap360 x)"
  by (simp add: trunc_def wrap360_def)

lemma Rotate_rotation:
  "rotation (Rotate d t c) =
    Vec3 (vx (rotation c))
      (fmod (fadd (vy (rotation c)) (fmul (fmul d (rotationSpeed (stats c))) t)) (Flt 360))
      (vz (rotation c))"
  by (simp add: Rotate_def Let_def)

lemma fresh_rotation:
  "vy (rotation fresh) = Flt 0" "rotationSpeed (stats fresh) = Flt 180"
  by (simp_all add: fresh_def new_MilitaryCharacter_def LoadAnimations_def
      InitializePhysics_def default_CharacterStats_def vec3_of_def)

lemma yaw_sum_90: "fadd (Flt 0) (fmul (fmul (Flt 90) (Flt 180)) (Flt 1)) = Flt 16200"
  by (simp add: rnd_16200)

lemma yaw_sum_1: "fadd (Flt 0) (fmul (fmul (Flt 1) (Flt 180)) (Flt 1)) = Flt 180"
  by (simp add: rnd_180)

lemma yaw_sum_minus_1: "fadd (Flt 0) (fmul (fmul (Flt (- 1)) (Flt 180)) (Flt 1)) = Flt (- 180)"
  by (simp add: rnd_180)

lemma yaw_sum_3: "fadd (Flt 0) (fmul (fmul (Flt 3) (Flt 180)) (Flt 1)) = Flt 540"
  by (simp add: rnd_540)

lemma wrap360_values: "wrap360 16200 = 0" "wrap360 180 = 180" "wrap360 540 = 180"
  by (simp_all add: wrap360_def)

text \<open>
  The sum is rounded before \<open>fmod\<close> sees it: at yaw 45/2048, \<open>Rotate(90, 1.0)\<close> with
  \<open>rotationSpeed = 180\<close> gives the yaw 11/512.
\<close>

lemma Rotate_rounds_the_sum:
  assumes "vy (rotation c) = Flt (45 / 2048)" and "rotationSpeed (stats c) = Flt 180"
  shows "vy (rotation (Rotate (Flt 90) (Flt 1) c)) = Flt (11 / 512)"
proof -
  have "fmul (fmul (Flt 90) (Flt 180)) (Flt 1) = Flt 16200"
    by (simp add: rnd_16200)
  moreover have "fadd (Flt (45 / 2048)) (Flt 16200) = Flt (16200 + 11 / 512)"
    using rnd_tie by (simp add: add.commute)
  moreover have "fmod (Flt (16200 + 11 / 512)) (Flt 360) = Flt (11 / 512)"
    by (simp add: trunc_def)
  ultimately show ?thesis
    by (simp only: Rotate_rotation assms vec3.sel)
qed

text \<open>
  C8, as stated: \<open>Rotate(90, 1.0)\<close> with \<open>rotationSpeed = 180\<close> increases the yaw by 180
  degrees, and the result of \<open>Rotate\<close> is in [0, 360). On the new character, whose yaw is
  0 and whose \<open>rotationSpeed\<close> is 180, \<open>Rotate(90, 1.0)\<close> adds 90 * 180 * 1 = 16200
  degrees, which is 45 whole turns, and the yaw is 0 again, not 180. And
  \<open>Rotate(-1, 1.0)\<close> gives the yaw -180, which is not in [0, 360): \<open>fmod\<close> keeps the
  sign of the sum. Every number here is a binary32 number and no operation rounds.
\<close>

theorem Rotate_counterexample:
  "vy (rotation fresh) = Flt 0
   \<and> rotationSpeed (stats fresh) = Flt 180
   \<and> vy (rotation (Rotate (Flt 90) (Flt 1) fresh)) = Flt 0
   \<and> vy (rotation (Rotate (Flt 90) (Flt 1) fresh)) \<noteq> Flt 180
   \<and> vy (rotation (Rotate (Flt (- 1)) (Flt 1) fresh)) = Flt (- 180)"
proof -
  have "fmod (Flt 16200) (Flt 360) = Flt 0"
    by (simp add: trunc_def)
  moreover have "fmod (Flt (- 180)) (Flt 360) = Flt (- 180)"
    by (simp add: trunc_def ceiling_eq_iff)
  ultimately show ?thesis
    by (simp add: Rotate_rotation fresh_rotation yaw_sum_90 yaw_sum_minus_1 del: fmod.simps fadd.simps fmul.simps)
qed

text \<open>
  C8, amended. \<open>Rotate(yawDelta, deltaTime)\<close> sets the yaw to \<open>fmod(s, 360)\<close>, where
  \<open>s\<close> is the sum \<open>yaw + yawDelta * rotationSpeed * deltaTime\<close> as the code computes it in
  binary32, and leaves the other two components of the rotation as they were. When \<open>s\<close>
  is finite and not negative, the new yaw is \<open>s\<close> wrapped into [0, 360). From yaw 0 with
  \<open>rotationSpeed = 180\<close>, \<open>Rotate(90, 1.0)\<close> adds 16200 degrees, 45 whole turns, and
  leaves the yaw at 0; it is \<open>Rotate(1, 1.0)\<close> that takes the yaw to 180.
\<close>

theorem Rotate_wraps_nonnegative_yaw:
  "vy (rotation (Rotate d t c))
     = fmod (fadd (vy (rotation c)) (fmul (fmul d (rotationSpeed (stats c))) t)) (Flt 360)
   \<and> vx (rotation (Rotate d t c)) = vx (rotation c)
   \<and> vz (rotation (Rotate d t c)) = vz (rotation c)
   \<and> (fadd (vy (rotation c)) (fmul (fmul d (rotationSpeed (stats c))) t) = Flt s \<and> 0 \<le> s \<longrightarrow>
        vy (rotation (Rotate d t c)) = Flt (wrap360 s) \<and> 0 \<le> wrap360 s \<and> wrap360 s < 360)
   \<and> (vy (rotation c) = Flt 0 \<and> rotationSpeed (stats c) = Flt 180 \<longrightarrow>
        vy (rotation (Rotate (Flt 90) (Flt 1) c)) = Flt 0
        \<and> vy (rotation (Rotate (Flt 1) (Flt 1) c)) = Flt 180)"
proof -
  have wrapped: "fadd (vy (rotation c)) (fmul (fmul d (rotationSpeed (stats c))) t) = Flt s
      \<and> 0 \<le> s \<longrightarrow>
      vy (rotation (Rotate d t c)) = Flt (wrap360 s) \<and> 0 \<le> wrap360 s \<and> wrap360 s < 360"
    using wrap360_bounds [of s] by (simp add: Rotate_rotation fmod_360_nonneg del: fmod.simps)
  have turns: "vy (rotation c) = Flt 0 \<and> rotationSpeed (stats c) = Flt 180 \<longrightarrow>
      vy (rotation (Rotate (Flt 90) (Flt 1) c)) = Flt 0
      \<and> vy (rotation (Rotate (Flt 1) (Flt 1) c)) = Flt 180"
  proof
    assume a: "vy (rotation c) = Flt 0 \<and> rotationSpeed (stats c) = Flt 180"
    have "vy (rotation (Rotate (Flt 90) (Flt 1) c)) = fmod (Flt 16200) (Flt 360)"
      using a yaw_sum_90 by (simp only: Rotate_rotation vec3.sel)
    moreover have "vy (rotation (Rotate (Flt 1) (Flt 1) c)) = fmod (Flt 180) (Flt 360)"
      using a yaw_sum_1 by (simp only: Rotate_rotation vec3.sel)
    ultimately show "vy (rotation (Rotate (Flt 90) (Flt 1) c)) = Flt 0
        \<and> vy (rotation (Rotate (Flt 1) (Flt 1) c)) = Flt 180"
      by (simp add: fmod_360_nonneg wrap360_values del: fmod.simps)
  qed
  show ?thesis
    using wrapped turns by (simp add: Rotate_rotation del: fmod.simps fadd.simps fmul.simps)
qed

text \<open>
  The new character has yaw 0 and \<open>rotationSpeed\<close> 180: for \<open>Rotate(3, 1.0)\<close> the sum is
  540, a turn and a half, and the yaw becomes 180; \<open>Rotate(1, 1.0)\<close> also takes it to
  180, and \<open>Rotate(90, 1.0)\<close> leaves it at 0.
\<close>

theorem Rotate_wraps_nonnegative_yaw_witness:
  "vy (rotation fresh) = Flt 0
   \<and> rotationSpeed (stats fresh) = Flt 180
   \<and> fadd (vy (rotation fresh)) (fmul (fmul (Flt 3) (rotationSpeed (stats fresh))) (Flt 1))
       = Flt 540
   \<and> vy (rotation (Rotate (Flt 3) (Flt 1) fresh)) = Flt 180
   \<and> vy (rotation (Rotate (Flt 1) (Flt 1) fresh)) = Flt 180
   \<and> vy (rotation (Rotate (Flt 90) (Flt 1) fresh)) = Flt 0"
  using Rotate_wraps_nonnegative_yaw [of "Flt 3" "Flt 1" fresh 540] fresh_rotation yaw_sum_3
  by (simp add: wrap360_values fmod_360_nonneg del: fmod.simps fadd.simps fmul.simps)

section \<open>Overflow and the zero direction\<close>

lemma ulp_from_top:
  assumes "s \<le> 104" and "pow2 128 \<le> \<bar>x\<bar>"
  shows "ulp_from s x = 104"
  using assms
proof (induction s x rule: ulp_from.induct)
  case (1 s x)
  show ?case
  proof (cases "s = 104")
    case True
    then show ?thesis by (subst ulp_from.simps) simp
  next
    case False
    then have lt: "s < 104" using "1.prems"(1) by simp
    have "pow2 (s + 24) \<le> pow2 128"
      using lt by (intro pow2_mono) simp
    then have big: "\<not> \<bar>x\<bar> < pow2 (s + 24)"
      using "1.prems"(2) by simp
    have "ulp_from (s + 1) x = 104"
      using big lt "1.prems"(2) by (intro "1.IH") simp_all
    then show ?thesis
      using big lt by (subst ulp_from.simps) simp
  qed
qed

lemma round_even_ge:
  assumes "of_int k \<le> q"
  shows "k \<le> round_even q"
proof -
  have "k \<le> \<lfloor>q\<rfloor>"
    using assms by (simp add: le_floor_iff)
  then show ?thesis
    by (simp add: round_even_def Let_def)
qed

lemma rnd_overflow:
  assumes "pow2 128 \<le> x"
  shows "rnd x = PInf"
proof -
  have e: "ulp_exp x = 104"
    unfolding ulp_exp_def using assms pow2_pos [of 128] by (intro ulp_from_top) simp_all
  have "of_int (2 ^ 24) \<le> x / pow2 104"
    using assms by (simp add: pow2_def field_simps)
  then have "(2 ^ 24 :: int) \<le> round_even (x / pow2 104)"
    by (rule round_even_ge)
  then have "(of_int (2 ^ 24) :: real) \<le> of_int (round_even (x / pow2 104))"
    by (rule of_int_le_iff [THEN iffD2])
  then have "of_int (2 ^ 24) * pow2 104 \<le> of_int (round_even (x / pow2 104)) * pow2 104"
    using pow2_pos [of 104] by (intro mult_right_mono) simp_all
  then have "pow2 128 \<le> of_int (round_even (x / pow2 104)) * pow2 104"
    by (simp add: pow2_def)
  then show ?thesis
    by (simp add: rnd_def Let_def e)
qed

text \<open>
  A product too large for binary32 is an infinity, and \<open>fmod\<close> of an infinity is NaN:
  \<open>Rotate(2^100, 2^100)\<close> leaves the yaw NaN.
\<close>

lemma Rotate_overflow:
  assumes "vy (rotation c) = Flt 0" and "rotationSpeed (stats c) = Flt 180"
  shows "vy (rotation (Rotate (Flt (2 ^ 100)) (Flt (2 ^ 100)) c)) = NaN"
proof -
  have "rnd (2 ^ 100 * 180) = Flt (2 ^ 100 * 180)"
    using rnd_eqI [of 84 "2 ^ 100 * 180" 11796480] by (simp add: pow2_def)
  then have "fmul (Flt (2 ^ 100)) (Flt 180) = Flt (2 ^ 100 * 180)"
    by (simp only: fmul.simps)
  moreover have "rnd (2 ^ 100 * 180 * 2 ^ 100) = PInf"
    by (rule rnd_overflow) (simp add: pow2_def)
  then have "fmul (Flt (2 ^ 100 * 180)) (Flt (2 ^ 100)) = PInf"
    by (simp only: fmul.simps)
  ultimately have "fmul (fmul (Flt (2 ^ 100)) (Flt 180)) (Flt (2 ^ 100)) = PInf"
    by (simp only:)
  then show ?thesis
    by (simp only: Rotate_rotation assms vec3.sel fadd.simps fmod.simps)
qed

text \<open>
  The zero direction: the sum of squares is 0, its inverse square root is +inf, and every
  component of the normalized vector is 0 * inf = NaN.
\<close>

lemma glm_normalize_zero: "glm_normalize (vec3_of (Flt 0)) = vec3_of NaN"
  by (simp add: glm_normalize_def glm_inversesqrt_def glm_dot_def vec3_of_def vec3_scale_def
      rnd_0)

end
